theory Spec2Isabelle
  imports Complex_Main "HOL-Library.Word"
begin

section \<open>The XNNPACK convolution kernel of the execution provider (conv.cc)\<close>

text \<open>
  A shallow embedding of \<^verbatim>\<open>onnxruntime/core/providers/xnnpack/nn/conv.cc\<close>: the
  classifier \<^verbatim>\<open>ParseQuantParamAndConType\<close>, the kernel factory
  \<^verbatim>\<open>CreateXnnpackKernel\<close>, the constructor of \<^verbatim>\<open>Conv\<close>,
  \<^verbatim>\<open>Conv::PrePack\<close> and \<^verbatim>\<open>Conv::Compute\<close>. The native library is a
  parameter of every function that calls it: a function from the arguments of a call to
  the status (and handle) it returns. Every function that calls the library also returns
  the list of the calls it made.
\<close>

subsection \<open>Values of the runtime and of the native library\<close>

text \<open>The status enumeration of the native library; exactly one value is success.\<close>

datatype xnn_status =
    xnn_status_success
  | xnn_status_uninitialized
  | xnn_status_invalid_parameter
  | xnn_status_invalid_state
  | xnn_status_unsupported_parameter
  | xnn_status_unsupported_hardware
  | xnn_status_out_of_memory

text \<open>The precision variants that conv.cc distinguishes.\<close>

datatype xnn_compute_type =
    xnn_compute_type_invalid
  | xnn_compute_type_fp32
  | xnn_compute_type_qc8
  | xnn_compute_type_qs8
  | xnn_compute_type_qu8

datatype AutoPadType = NOTSET | VALID | SAME_UPPER | SAME_LOWER

datatype TensorProto_DataType =
    TensorProto_DataType_FLOAT
  | TensorProto_DataType_UINT8
  | TensorProto_DataType_INT8
  | TensorProto_DataType_INT32

text \<open>
  A \<^verbatim>\<open>float\<close> is only stored, passed on and converted to an 8-bit integer here, never
  computed with: a finite value is the rational it denotes.
\<close>

datatype float = Finite rat | INFINITY | NEG_INFINITY | NaN

text \<open>
  A returned \<^verbatim>\<open>Status\<close> is OK, or a category, a code and the parts of its message.
  Then what the source throws, and what C++ leaves undefined: \<^verbatim>\<open>ORT_ENFORCE\<close> throws
  with its message, \<^verbatim>\<open>ORT_THROW_IF_ERROR\<close> with the status it was given,
  \<^verbatim>\<open>gsl::narrow\<close> when the value does not fit; reading past the end of a vector,
  dividing by zero and converting a float outside the target range have no defined
  result.
\<close>

datatype StatusCategory = ONNXRUNTIME
datatype StatusCode = FAIL | INVALID_ARGUMENT
datatype msg_part = Text string | XnnStatus xnn_status

datatype Status = OK | MakeStatus StatusCategory StatusCode "msg_part list"

datatype error =
    ORT_ENFORCE_failed string
  | ORT_THROW_IF_ERROR_failed Status
  | narrowing_error
  | bad_alloc
  | undefined_behaviour string

text \<open>The buffer of a tensor: its elements in row-major order, by element type.\<close>

datatype tensor_data =
    float_data "float list"
  | int8_data "8 word list"
  | uint8_data "8 word list"
  | int32_data "32 word list"

record Tensor =
  Shape :: "int list"
  data :: tensor_data

definition DataType :: "Tensor \<Rightarrow> TensorProto_DataType" where
  "DataType t = (case data t of
      float_data _ \<Rightarrow> TensorProto_DataType_FLOAT
    | int8_data _ \<Rightarrow> TensorProto_DataType_INT8
    | uint8_data _ \<Rightarrow> TensorProto_DataType_UINT8
    | int32_data _ \<Rightarrow> TensorProto_DataType_INT32)"

fun data_length :: "tensor_data \<Rightarrow> nat" where
  "data_length (float_data xs) = length xs"
| "data_length (int8_data xs) = length xs"
| "data_length (uint8_data xs) = length xs"
| "data_length (int32_data xs) = length xs"

text \<open>\<^verbatim>\<open>TensorShape::Size\<close>: the product of the dimensions.\<close>

definition Size :: "int list \<Rightarrow> int" where
  "Size ds = prod_list ds"

text \<open>
  Modelled from the spec: \<^verbatim>\<open>Tensor::Data<T>\<close> (core/framework/tensor.h, absent) is the
  typed read-only accessor of a tensor's buffer. It throws, as \<^verbatim>\<open>ORT_ENFORCE\<close> does,
  when \<^verbatim>\<open>T\<close> is not the element type of the tensor. \<^verbatim>\<open>*(t->Data<uint8_t>())\<close> is
  the first element of an unsigned 8-bit buffer; on a tensor of any other element type,
  a signed 8-bit one included, the accessor throws; on an empty buffer the read is
  undefined.
\<close>

definition deref_uint8 :: "Tensor \<Rightarrow> error + 8 word" where
  "deref_uint8 t = (case data t of
      uint8_data (x # _) \<Rightarrow> Inr x
    | uint8_data [] \<Rightarrow> Inl (undefined_behaviour ''read of an empty buffer'')
    | _ \<Rightarrow> Inl (ORT_ENFORCE_failed ''Tensor type mismatch. ''))"

text \<open>
  Modelled from the spec: \<^verbatim>\<open>*(t->Data<float>())\<close>, the first element of a float buffer,
  through the same typed accessor (core/framework/tensor.h, absent).
\<close>

definition deref_float :: "Tensor \<Rightarrow> error + float" where
  "deref_float t = (case data t of
      float_data (x # _) \<Rightarrow> Inr x
    | float_data [] \<Rightarrow> Inl (undefined_behaviour ''read of an empty buffer'')
    | _ \<Rightarrow> Inl (ORT_ENFORCE_failed ''Tensor type mismatch. ''))"

subsection \<open>Errors in sequence, machine integers\<close>

definition bind :: "error + 'a \<Rightarrow> ('a \<Rightarrow> error + 'b) \<Rightarrow> error + 'b" where
  "bind m f = (case m of Inl e \<Rightarrow> Inl e | Inr x \<Rightarrow> f x)"

text \<open>\<^verbatim>\<open>v[i]\<close> on a vector of 64-bit integers.\<close>

definition elem_at :: "int list \<Rightarrow> nat \<Rightarrow> error + int" where
  "elem_at v i = (if i < length v then Inr (v ! i) else Inl (undefined_behaviour ''index out of range''))"

text \<open>\<^verbatim>\<open>gsl::narrow<uint32_t>\<close> of a 64-bit signed integer.\<close>

definition narrow_uint32 :: "int \<Rightarrow> error + 32 word" where
  "narrow_uint32 x = (if 0 \<le> x \<and> x < 2 ^ 32 then Inr (word_of_int x) else Inl narrowing_error)"

definition narrow_at :: "int list \<Rightarrow> nat \<Rightarrow> error + 32 word" where
  "narrow_at v i = bind (elem_at v i) narrow_uint32"

text \<open>The implicit conversion of a \<^verbatim>\<open>uint32_t\<close> to \<^verbatim>\<open>int32_t\<close>, read as an integer.\<close>

definition to_int32 :: "32 word \<Rightarrow> int" where
  "to_int32 w = sint w"

text \<open>C++ division of signed integers truncates towards zero; by zero it is undefined.\<close>

definition cpp_div :: "int \<Rightarrow> int \<Rightarrow> error + int" where
  "cpp_div a b = (if b = 0 then Inl (undefined_behaviour ''division by zero'')
                  else Inr (sgn a * sgn b * (\<bar>a\<bar> div \<bar>b\<bar>)))"

text \<open>The conversion of a signed integer to \<^verbatim>\<open>size_t\<close> (64 bits).\<close>

definition to_size_t :: "int \<Rightarrow> 64 word" where
  "to_size_t x = word_of_int x"

text \<open>
  \<^verbatim>\<open>static_cast<uint8_t>\<close> of a float: the value truncated towards zero when that lies
  in the range of the type; undefined otherwise.
\<close>

fun static_cast_uint8 :: "float \<Rightarrow> error + 8 word" where
  "static_cast_uint8 (Finite r) =
     (let t = (if 0 \<le> r then \<lfloor>r\<rfloor> else \<lceil>r\<rceil>)
      in if 0 \<le> t \<and> t \<le> 255 then Inr (word_of_int t)
         else Inl (undefined_behaviour ''float out of the range of uint8_t''))"
| "static_cast_uint8 _ = Inl (undefined_behaviour ''float out of the range of uint8_t'')"

subsection \<open>Attributes, quantization parameters, native calls\<close>

text \<open>The fields of \<^verbatim>\<open>ConvAttributes\<close> that conv.cc reads.\<close>

record ConvAttributes =
  auto_pad :: AutoPadType
  pads :: "int list"
  strides :: "int list"
  dilations :: "int list"
  group :: int
  activation :: string

text \<open>
  Modelled from the spec: \<^verbatim>\<open>QuantParam\<close> is declared in conv.h, which is absent. Its
  fields are the ones conv.cc assigns and reads: a zero point and a scale for each of X,
  W and Y, and \<^verbatim>\<open>W_scale_arr\<close>, a pointer to the buffer of the weight-scale tensor,
  null until the classifier sets it.
\<close>

record QuantParam =
  X_zero_point_value :: "8 word"
  W_zero_point_value :: "8 word"
  Y_zero_point_value :: "8 word"
  X_scale_value :: float
  W_scale_value :: float
  W_scale_arr :: "tensor_data option"
  Y_scale_value :: float

text \<open>The flag of xnnpack.h for TensorFlow "same" padding.\<close>

definition XNN_FLAG_TENSORFLOW_SAME_PADDING :: "32 word" where
  "XNN_FLAG_TENSORFLOW_SAME_PADDING = 4"

text \<open>The arguments that the four creation entry points have in common.\<close>

record conv2d_params =
  input_padding_top :: "32 word"
  input_padding_right :: "32 word"
  input_padding_bottom :: "32 word"
  input_padding_left :: "32 word"
  kernel_height :: "32 word"
  kernel_width :: "32 word"
  subsampling_height :: "32 word"
  subsampling_width :: "32 word"
  dilation_height :: "32 word"
  dilation_width :: "32 word"
  groups :: "32 word"
  group_input_channels :: "64 word"
  group_output_channels :: "64 word"
  input_channel_stride :: "64 word"
  output_channel_stride :: "64 word"

text \<open>
  A call of one of the four creation entry points, with its arguments in the order of the
  source. A pointer argument is the buffer it points to; the address of a single
  \<^verbatim>\<open>float\<close> object is a buffer of that one float. The buffers of the weight, the bias
  and the input are passed on whatever their element type: the check of the element type
  that the typed accessor makes is modelled where a value is read (the zero points and
  the scales), not on these pointer arguments.
\<close>

datatype create_call =
    xnn_create_convolution2d_nhwc_f32
      (params: conv2d_params) (kernel: tensor_data) (bias: "tensor_data option")
      (f32_output_min: float) (f32_output_max: float) (flags: "32 word")
  | xnn_create_convolution2d_nhwc_qs8
      (params: conv2d_params) (input_zero_point: "8 word") (input_scale: float)
      (qs8_kernel_scale: float) (kernel: tensor_data) (bias: "tensor_data option")
      (output_zero_point: "8 word") (output_scale: float)
      (q_output_min: "8 word") (q_output_max: "8 word") (flags: "32 word")
  | xnn_create_convolution2d_nhwc_qc8
      (params: conv2d_params) (input_zero_point: "8 word") (input_scale: float)
      (qc8_kernel_scale: tensor_data) (kernel: tensor_data) (bias: "tensor_data option")
      (output_zero_point: "8 word") (output_scale: float)
      (q_output_min: "8 word") (q_output_max: "8 word") (flags: "32 word")
  | xnn_create_convolution2d_nhwc_qu8
      (params: conv2d_params) (input_zero_point: "8 word") (input_scale: float)
      (kernel_zero_point: "8 word") (qu8_kernel_scale: float)
      (kernel: tensor_data) (bias: "tensor_data option")
      (output_zero_point: "8 word") (output_scale: float)
      (q_output_min: "8 word") (q_output_max: "8 word") (flags: "32 word")

text \<open>The opaque handle of a native operator.\<close>

datatype xnn_operator = xnn_operator nat

text \<open>The native library's answer to a creation call: a status and the handle written.\<close>

type_synonym xnn_create = "create_call \<Rightarrow> xnn_status \<times> xnn_operator option"

record create_result =
  status :: Status
  p :: "xnn_operator option"
  create_calls :: "create_call list"

subsection \<open>CreateXnnpackKernel\<close>

text \<open>
  The prologue of \<^verbatim>\<open>CreateXnnpackKernel\<close>: the narrowed kernel, padding, stride and
  dilation values, the flags, and the group counts.
\<close>

definition same_padding_flags :: "ConvAttributes \<Rightarrow> 32 word" where
  "same_padding_flags conv_attrs =
     (if auto_pad conv_attrs = SAME_UPPER then or 0 XNN_FLAG_TENSORFLOW_SAME_PADDING else 0)"

definition kernel_params :: "ConvAttributes \<Rightarrow> int \<Rightarrow> int \<Rightarrow> int list \<Rightarrow> error + conv2d_params" where
  "kernel_params conv_attrs C M kernel_shape =
     bind (narrow_at kernel_shape 0) (\<lambda>kh.
     bind (narrow_at kernel_shape 1) (\<lambda>kw.
     bind (narrow_at (pads conv_attrs) 0) (\<lambda>pt.
     bind (narrow_at (pads conv_attrs) 1) (\<lambda>pl.
     bind (narrow_at (pads conv_attrs) 2) (\<lambda>pb.
     bind (narrow_at (pads conv_attrs) 3) (\<lambda>pr.
     bind (narrow_at (strides conv_attrs) 0) (\<lambda>sh.
     bind (narrow_at (strides conv_attrs) 1) (\<lambda>sw.
     bind (narrow_at (dilations conv_attrs) 0) (\<lambda>dh.
     bind (narrow_at (dilations conv_attrs) 1) (\<lambda>dw.
     bind (narrow_uint32 (group conv_attrs)) (\<lambda>g.
     let group_count = to_int32 g in
     bind (cpp_div C group_count) (\<lambda>cg.
     bind (narrow_uint32 cg) (\<lambda>gic.
     bind (cpp_div M group_count) (\<lambda>mg.
     bind (narrow_uint32 mg) (\<lambda>goc.
     Inr \<lparr> input_padding_top = pt, input_padding_right = pr,
           input_padding_bottom = pb, input_padding_left = pl,
           kernel_height = kh, kernel_width = kw,
           subsampling_height = sh, subsampling_width = sw,
           dilation_height = dh, dilation_width = dw,
           groups = word_of_int group_count,
           group_input_channels = to_size_t (to_int32 gic),
           group_output_channels = to_size_t (to_int32 goc),
           input_channel_stride = to_size_t C,
           output_channel_stride = to_size_t M \<rparr>)))))))))))))))"

text \<open>The status returned after the creation call.\<close>

definition create_status :: "xnn_status \<Rightarrow> Status" where
  "create_status st =
     (if st \<noteq> xnn_status_success
      then MakeStatus ONNXRUNTIME FAIL
             [Text ''Failed to create xnnpack kernel. xnn_create_convolution2d_nhwc_f32 returned '',
              XnnStatus st]
      else OK)"

definition call_create :: "xnn_create \<Rightarrow> create_call \<Rightarrow> create_result" where
  "call_create xnn c =
     (case xnn c of (st, h) \<Rightarrow> \<lparr> status = create_status st, p = h, create_calls = [c] \<rparr>)"

text \<open>
  The call chosen by \<^verbatim>\<open>conv_type\<close>, if any: \<^verbatim>\<open>None\<close> is the final \<^verbatim>\<open>else\<close> branch.
  \<^verbatim>\<open>fl\<close> is the local \<^verbatim>\<open>flags\<close>; only the float branch passes it on, the three
  quantized branches pass the literal 0.
\<close>

definition chosen_call ::
  "conv2d_params \<Rightarrow> 32 word \<Rightarrow> (float \<times> float) option \<Rightarrow> Tensor \<Rightarrow> Tensor option \<Rightarrow>
   QuantParam \<Rightarrow> xnn_compute_type \<Rightarrow> error + create_call option" where
  "chosen_call ps fl clip_min_max W B_Ts quant_param conv_type =
     (let B_data = map_option data B_Ts in
      if conv_type = xnn_compute_type_fp32 then
        (let output_min = (case clip_min_max of Some c \<Rightarrow> fst c | None \<Rightarrow> NEG_INFINITY);
             output_max = (case clip_min_max of Some c \<Rightarrow> snd c | None \<Rightarrow> INFINITY)
         in Inr (Some (xnn_create_convolution2d_nhwc_f32 ps (data W) B_data
                         output_min output_max fl)))
      else if conv_type = xnn_compute_type_qs8 then
        Inr (Some (xnn_create_convolution2d_nhwc_qs8 ps
               (X_zero_point_value quant_param) (X_scale_value quant_param)
               (W_scale_value quant_param) (data W) B_data
               (Y_zero_point_value quant_param) (Y_scale_value quant_param)
               (- 126) 126 0))
      else if conv_type = xnn_compute_type_qc8 then
        Inr (Some (xnn_create_convolution2d_nhwc_qc8 ps
               (X_zero_point_value quant_param) (X_scale_value quant_param)
               (float_data [W_scale_value quant_param]) (data W) B_data
               (Y_zero_point_value quant_param) (Y_scale_value quant_param)
               (- 126) 126 0))
      else if conv_type = xnn_compute_type_qu8 then
        bind (case clip_min_max of Some c \<Rightarrow> static_cast_uint8 (fst c) | None \<Rightarrow> Inr 0)
          (\<lambda>output_min.
        bind (case clip_min_max of Some c \<Rightarrow> static_cast_uint8 (snd c) | None \<Rightarrow> Inr 255)
          (\<lambda>output_max.
        Inr (Some (xnn_create_convolution2d_nhwc_qu8 ps
               (X_zero_point_value quant_param) (X_scale_value quant_param)
               (W_zero_point_value quant_param) (W_scale_value quant_param)
               (data W) B_data
               (Y_zero_point_value quant_param) (Y_scale_value quant_param)
               output_min output_max 0))))
      else Inr None)"

definition CreateXnnpackKernel ::
  "xnn_create \<Rightarrow> ConvAttributes \<Rightarrow> int \<Rightarrow> int \<Rightarrow> int list \<Rightarrow> (float \<times> float) option \<Rightarrow>
   Tensor \<Rightarrow> Tensor option \<Rightarrow> QuantParam \<Rightarrow> xnn_compute_type \<Rightarrow> error + create_result" where
  "CreateXnnpackKernel xnn conv_attrs C M kernel_shape clip_min_max W B_Ts quant_param conv_type =
     bind (kernel_params conv_attrs C M kernel_shape) (\<lambda>ps.
     bind (chosen_call ps (same_padding_flags conv_attrs) clip_min_max W B_Ts quant_param conv_type)
       (\<lambda>c. case c of
           Some call \<Rightarrow> Inr (call_create xnn call)
         | None \<Rightarrow> Inr \<lparr> status = MakeStatus ONNXRUNTIME FAIL
                            [Text ''Failed to create xnnpack kernel. unsupported kernel type  ''],
                         p = None, create_calls = [] \<rparr>))"

subsection \<open>The inputs of a node and the state of the operator\<close>

text \<open>
  The enumeration \<^verbatim>\<open>Conv::InputTensors\<close> is declared in conv.h, which is absent. Its
  values are the positions of the inputs of the quantized convolution, the weight at
  position 3. (The float convolution has its weight at position 1 and its bias at
  position 2, as the source writes them.)
\<close>

text \<open>Modelled from the spec: the position of the input X in \<^verbatim>\<open>Conv::InputTensors\<close> (conv.h).\<close>

definition IN_X :: nat where "IN_X = 0"

text \<open>Modelled from the spec: the position of the scale of X in \<^verbatim>\<open>Conv::InputTensors\<close> (conv.h).\<close>

definition IN_X_SCALE :: nat where "IN_X_SCALE = 1"

text \<open>Modelled from the spec: the position of the zero point of X in \<^verbatim>\<open>Conv::InputTensors\<close> (conv.h).\<close>

definition IN_X_ZERO_POINT :: nat where "IN_X_ZERO_POINT = 2"

text \<open>Modelled from the spec: the position of the weight W in \<^verbatim>\<open>Conv::InputTensors\<close> (conv.h).\<close>

definition IN_W :: nat where "IN_W = 3"

text \<open>Modelled from the spec: the position of the scale of W in \<^verbatim>\<open>Conv::InputTensors\<close> (conv.h).\<close>

definition IN_W_SCALE :: nat where "IN_W_SCALE = 4"

text \<open>Modelled from the spec: the position of the zero point of W in \<^verbatim>\<open>Conv::InputTensors\<close> (conv.h).\<close>

definition IN_W_ZERO_POINT :: nat where "IN_W_ZERO_POINT = 5"

text \<open>Modelled from the spec: the position of the scale of Y in \<^verbatim>\<open>Conv::InputTensors\<close> (conv.h).\<close>

definition IN_Y_SCALE :: nat where "IN_Y_SCALE = 6"

text \<open>Modelled from the spec: the position of the zero point of Y in \<^verbatim>\<open>Conv::InputTensors\<close> (conv.h).\<close>

definition IN_Y_ZERO_POINT :: nat where "IN_Y_ZERO_POINT = 7"


text \<open>
  What the constructor reads of \<^verbatim>\<open>OpKernelInfo\<close> and of the node: the node's name, the
  constant initializer at each input position (\<^verbatim>\<open>TryGetConstantInput\<close> fails where there
  is none), whether each input definition exists, the channel dimension and the element
  type of X, the attributes of a fused activation, and the parsed \<^verbatim>\<open>ConvAttributes\<close>.
\<close>

record OpKernelInfo =
  node_name :: string
  constant_input :: "nat \<Rightarrow> Tensor option"
  input_defs :: "bool list"
  X_dim3 :: int
  X_elem_type :: TensorProto_DataType
  attr_activation :: "string option"
  attr_activation_params :: "float list option"
  attrs :: ConvAttributes

text \<open>
  The members of \<^verbatim>\<open>Conv\<close> that conv.cc uses. A name here cannot end in an underscore,
  so each member carries a prime after the underscore of its name in the source.
\<close>

record Conv =
  conv_attrs_' :: ConvAttributes
  clip_min_max_' :: "(float \<times> float) option"
  C_' :: int
  M_' :: int
  kernel_shape_' :: "int list"
  conv_type_' :: xnn_compute_type
  quant_param_' :: QuantParam
  B_' :: "Tensor option"
  packed_w_' :: "Tensor option"
  op0_' :: "xnn_operator option"

text \<open>
  Modelled from the spec: the member initializers of \<^verbatim>\<open>QuantParam\<close> (conv.h, absent),
  zero values and a null pointer. The float path leaves the parameters at these values.
\<close>

definition QuantParam_init :: QuantParam where
  "QuantParam_init =
     \<lparr> X_zero_point_value = 0, W_zero_point_value = 0, Y_zero_point_value = 0,
       X_scale_value = Finite 0, W_scale_value = Finite 0, W_scale_arr = None,
       Y_scale_value = Finite 0 \<rparr>"

text \<open>\<^verbatim>\<open>ORT_ENFORCE(info.TryGetConstantInput(idx, &t), msg, node.Name())\<close>.\<close>

definition enforce_constant_input :: "OpKernelInfo \<Rightarrow> nat \<Rightarrow> string \<Rightarrow> error + Tensor" where
  "enforce_constant_input info idx msg =
     (case constant_input info idx of
        Some t \<Rightarrow> Inr t
      | None \<Rightarrow> Inl (ORT_ENFORCE_failed (msg @ node_name info)))"

definition not_constant_msg :: "string \<Rightarrow> string" where
  "not_constant_msg name =
     name @ '' input was not constant initializer. XNNPACK EP should not have asked for the node. Node name:''"

subsection \<open>ParseQuantParamAndConType\<close>

text \<open>
  Modelled from the spec: the helper \<^verbatim>\<open>IsScalarOr1ElementVector\<close> (core/providers/utils.h)
  is absent. By its name and by the spec ("not a scalar / single-element vector"), it
  holds of a tensor of rank 0 and of a tensor of rank 1 with one element.
\<close>

definition IsScalarOr1ElementVector :: "Tensor \<Rightarrow> bool" where
  "IsScalarOr1ElementVector t =
     (length (Shape t) = 0 \<or> (length (Shape t) = 1 \<and> Size (Shape t) = 1))"

definition ParseQuantParamAndConType ::
  "OpKernelInfo \<Rightarrow> QuantParam \<Rightarrow> TensorProto_DataType \<Rightarrow> error + xnn_compute_type \<times> QuantParam" where
  "ParseQuantParamAndConType info quant_param x_dtype =
     bind (enforce_constant_input info IN_X_ZERO_POINT (not_constant_msg ''X_zero_point'')) (\<lambda>X_zero_point.
     bind (enforce_constant_input info IN_W_ZERO_POINT (not_constant_msg ''W_zero_point'')) (\<lambda>W_zero_point.
     bind (enforce_constant_input info IN_Y_ZERO_POINT (not_constant_msg ''Y_zero_point'')) (\<lambda>Y_zero_point.
     bind (deref_uint8 X_zero_point) (\<lambda>xz.
     bind (deref_uint8 W_zero_point) (\<lambda>wz.
     bind (deref_uint8 Y_zero_point) (\<lambda>yz.
     bind (enforce_constant_input info IN_X_SCALE (not_constant_msg ''X_scale'')) (\<lambda>X_scale.
     bind (enforce_constant_input info IN_W_SCALE (not_constant_msg ''W_scale'')) (\<lambda>W_scale.
     bind (enforce_constant_input info IN_Y_SCALE (not_constant_msg ''Y_scale'')) (\<lambda>Y_scale.
     bind (deref_float X_scale) (\<lambda>xs.
     bind (deref_float W_scale) (\<lambda>ws.
     bind (deref_float Y_scale) (\<lambda>ys.
     let qp = quant_param \<lparr> X_zero_point_value := xz, W_zero_point_value := wz,
                            Y_zero_point_value := yz, X_scale_value := xs,
                            W_scale_value := ws, Y_scale_value := ys \<rparr>
     in Inr (if x_dtype = TensorProto_DataType_INT8 then
               (if \<not> IsScalarOr1ElementVector W_scale
                then (xnn_compute_type_qc8, qp \<lparr> W_scale_arr := Some (data W_scale) \<rparr>)
                else (xnn_compute_type_qs8, qp))
             else if x_dtype = TensorProto_DataType_UINT8 then (xnn_compute_type_qu8, qp)
             else (xnn_compute_type_invalid, qp))))))))))))))"

subsection \<open>The constructor\<close>







subsection \<open>PrePack\<close>

text \<open>
  Modelled from the spec: the loop nest of \<^verbatim>\<open>SingleAxisTranspose\<close>
  (core/framework/transpose_helper.h, absent) for an axis moved inwards. For every index
  \<^verbatim>\<open>l\<close> of the axes before the moved one and every index \<^verbatim>\<open>i\<close> of the axes it moves
  past, the elements along the moved axis (index \<^verbatim>\<open>r\<close>) are copied next to each other,
  in blocks of the size of the axes that stay behind it. The list gives, in the order of
  the output buffer, the position in the input buffer each element is read from.
\<close>

definition source_indices :: "nat \<Rightarrow> nat \<Rightarrow> nat \<Rightarrow> nat \<Rightarrow> nat list" where
  "source_indices num_loops num_readers inner block_size =
     concat (map (\<lambda>l.
       concat (map (\<lambda>i.
         concat (map (\<lambda>r.
           map (\<lambda>b. ((l * num_readers + r) * inner + i) * block_size + b) [0..<block_size])
         [0..<num_readers]))
       [0..<inner]))
     [0..<num_loops])"

text \<open>The copy: a read outside the input buffer is undefined.\<close>

definition gather :: "nat list \<Rightarrow> 'a list \<Rightarrow> error + 'a list" where
  "gather idxs xs =
     (if list_all (\<lambda>i. i < length xs) idxs then Inr (map (\<lambda>i. xs ! i) idxs)
      else Inl (undefined_behaviour ''read outside the buffer''))"

fun gather_data :: "nat list \<Rightarrow> tensor_data \<Rightarrow> error + tensor_data" where
  "gather_data idxs (float_data xs) = bind (gather idxs xs) (\<lambda>ys. Inr (float_data ys))"
| "gather_data idxs (int8_data xs) = bind (gather idxs xs) (\<lambda>ys. Inr (int8_data ys))"
| "gather_data idxs (uint8_data xs) = bind (gather idxs xs) (\<lambda>ys. Inr (uint8_data ys))"
| "gather_data idxs (int32_data xs) = bind (gather idxs xs) (\<lambda>ys. Inr (int32_data ys))"

text \<open>
  Modelled from the spec: \<^verbatim>\<open>SingleAxisTranspose\<close> (core/framework/transpose_helper.h) is
  absent. It moves the axis \<^verbatim>\<open>from\<close> to the position \<^verbatim>\<open>to\<close> and keeps the order of
  the other axes; the result is the buffer written to the output tensor.
\<close>

definition SingleAxisTranspose :: "Tensor \<Rightarrow> nat \<Rightarrow> nat \<Rightarrow> error + tensor_data" where
  "SingleAxisTranspose input from to =
     (let ds = map nat (Shape input)
      in gather_data
           (source_indices (prod_list (take from ds)) (ds ! from)
              (prod_list (take (to - from) (drop (from + 1) ds)))
              (prod_list (drop (to + 1) ds)))
           (data input))"

text \<open>The size in bytes of an element, and the allocator: whether a request succeeds.\<close>

fun element_size :: "tensor_data \<Rightarrow> nat" where
  "element_size (float_data _) = 4"
| "element_size (int8_data _) = 1"
| "element_size (uint8_data _) = 1"
| "element_size (int32_data _) = 4"

type_synonym AllocatorPtr = "nat \<Rightarrow> bool"

record prepack_result =
  prepack_status :: Status
  is_packed :: bool
  self :: Conv
  prepack_calls :: "create_call list"

definition is_weight_input :: "Conv \<Rightarrow> int \<Rightarrow> bool" where
  "is_weight_input this input_idx =
     ((conv_type_' this = xnn_compute_type_fp32 \<and> input_idx = 1) \<or>
      (conv_type_' this \<noteq> xnn_compute_type_fp32 \<and> input_idx = int IN_W))"

text \<open>
  The transformation of the weight in \<^verbatim>\<open>PrePack\<close>: the new dimensions, the allocation of
  \<^verbatim>\<open>packed_w_\<close> with the element type of the source, and the transposition into it.
\<close>

definition pack_weight :: "Tensor \<Rightarrow> AllocatorPtr \<Rightarrow> error + Tensor" where
  "pack_weight tensor alloc =
     (let orig_shape = Shape tensor in
      bind (elem_at orig_shape 0) (\<lambda>d0.
      bind (elem_at orig_shape 2) (\<lambda>d2.
      bind (elem_at orig_shape 3) (\<lambda>d3.
      bind (elem_at orig_shape 1) (\<lambda>d1.
      let new_dims = [d0, d2, d3, d1] in
      if \<not> alloc (nat (Size new_dims) * element_size (data tensor)) then Inl bad_alloc
      else bind (SingleAxisTranspose tensor 1 3) (\<lambda>packed_data.
           Inr \<lparr> Shape = new_dims, data = packed_data \<rparr>))))))"

definition PrePack ::
  "xnn_create \<Rightarrow> Conv \<Rightarrow> Tensor \<Rightarrow> int \<Rightarrow> AllocatorPtr \<Rightarrow> error + prepack_result" where
  "PrePack xnn this tensor input_idx alloc =
     (if is_weight_input this input_idx then
        bind (pack_weight tensor alloc) (\<lambda>packed_w.
        let this1 = this \<lparr> packed_w_' := Some packed_w \<rparr> in
        bind (CreateXnnpackKernel xnn (conv_attrs_' this1) (C_' this1) (M_' this1)
                (kernel_shape_' this1) (clip_min_max_' this1) packed_w (B_' this1)
                (quant_param_' this1) (conv_type_' this1)) (\<lambda>ret.
        if status ret \<noteq> OK
        then Inr \<lparr> prepack_status = status ret, is_packed = True, self = this1,
                   prepack_calls = create_calls ret \<rparr>
        else Inr \<lparr> prepack_status = OK, is_packed = True,
                   self = this1 \<lparr> op0_' := p ret \<rparr>,
                   prepack_calls = create_calls ret \<rparr>))
      else Inr \<lparr> prepack_status = OK, is_packed = False, self = this, prepack_calls = [] \<rparr>)"

text \<open>
  The ground truth for the transposition: a generic permutation of the axes of a
  row-major tensor. The element at an index of the output is read at the input position
  whose index along axis \<^verbatim>\<open>perm[k]\<close> is the output's index along axis \<^verbatim>\<open>k\<close>.
\<close>

definition row_major_strides :: "nat list \<Rightarrow> nat list" where
  "row_major_strides ds = map (\<lambda>k. prod_list (drop (k + 1) ds)) [0..<length ds]"

fun unflatten :: "nat list \<Rightarrow> nat \<Rightarrow> nat list" where
  "unflatten [] pos = []"
| "unflatten (d # ds) pos = (pos div prod_list ds) # unflatten ds (pos mod prod_list ds)"

definition flat_index :: "nat list \<Rightarrow> nat list \<Rightarrow> nat" where
  "flat_index idx strides_l = sum_list (map2 (*) idx strides_l)"

definition permuted_sources :: "nat list \<Rightarrow> nat list \<Rightarrow> nat list" where
  "permuted_sources perm ds =
     map (\<lambda>pos. flat_index (unflatten (map ((!) ds) perm) pos)
                   (map ((!) (row_major_strides ds)) perm))
         [0..<prod_list ds]"

definition Transpose_generic :: "nat list \<Rightarrow> Tensor \<Rightarrow> error + Tensor" where
  "Transpose_generic perm t =
     bind (gather_data (permuted_sources perm (map nat (Shape t))) (data t)) (\<lambda>d.
     Inr \<lparr> Shape = map ((!) (Shape t)) perm, data = d \<rparr>)"

text \<open>
  A second ground truth, position by position: the element at a position of a buffer,
  whatever its type, and nothing outside the buffer.
\<close>

datatype element =
    float_element float
  | int8_element "8 word"
  | uint8_element "8 word"
  | int32_element "32 word"

fun element_at :: "tensor_data \<Rightarrow> nat \<Rightarrow> element option" where
  "element_at (float_data xs) i = (if i < length xs then Some (float_element (xs ! i)) else None)"
| "element_at (int8_data xs) i = (if i < length xs then Some (int8_element (xs ! i)) else None)"
| "element_at (uint8_data xs) i = (if i < length xs then Some (uint8_element (xs ! i)) else None)"
| "element_at (int32_data xs) i = (if i < length xs then Some (int32_element (xs ! i)) else None)"

subsection \<open>Compute\<close>

text \<open>
  The setup entry points and the run entry point of the native library. The output
  buffer of a setup call is the buffer of the output tensor, given by that tensor's
  shape; the thread pool is always null and is left out.
\<close>

datatype native_call =
    xnn_setup_convolution2d_nhwc_f32
      (op: "xnn_operator option") (batch_size: "64 word") (input_height: "64 word")
      (input_width: "64 word") (input_ptr: tensor_data) (output_ptr: "int list")
  | xnn_setup_convolution2d_nhwc_qs8
      (op: "xnn_operator option") (batch_size: "64 word") (input_height: "64 word")
      (input_width: "64 word") (input_ptr: tensor_data) (output_ptr: "int list")
  | xnn_setup_convolution2d_nhwc_qu8
      (op: "xnn_operator option") (batch_size: "64 word") (input_height: "64 word")
      (input_width: "64 word") (input_ptr: tensor_data) (output_ptr: "int list")
  | xnn_setup_convolution2d_nhwc_qc8
      (op: "xnn_operator option") (batch_size: "64 word") (input_height: "64 word")
      (input_width: "64 word") (input_ptr: tensor_data) (output_ptr: "int list")
  | xnn_run_operator (op: "xnn_operator option")

type_synonym xnn_native = "native_call \<Rightarrow> xnn_status"

text \<open>
  \<^verbatim>\<open>ConvAttributes::InferPadsAndOutputShape\<close> is absent; \<^verbatim>\<open>Compute\<close> takes it as a
  parameter: from the attributes, the spatial input shape, the kernel shape, the strides,
  the dilations, the pads and the output shape so far, to a status, the pads and the
  output shape it leaves.
\<close>

type_synonym InferPadsAndOutputShape =
  "ConvAttributes \<Rightarrow> int list \<Rightarrow> int list \<Rightarrow> int list \<Rightarrow> int list \<Rightarrow> int list \<Rightarrow> int list
   \<Rightarrow> Status \<times> int list \<times> int list"

record compute_result =
  compute_status :: Status
  Y :: "int list option"
  native_calls :: "native_call list"
  self_after :: Conv

text \<open>The setup call chosen by \<^verbatim>\<open>conv_type_\<close>, if any.\<close>

definition setup_call ::
  "Conv \<Rightarrow> int \<Rightarrow> int \<Rightarrow> int \<Rightarrow> Tensor \<Rightarrow> int list \<Rightarrow> native_call option" where
  "setup_call this N H W X Y_shape =
     (if conv_type_' this = xnn_compute_type_fp32 then
        Some (xnn_setup_convolution2d_nhwc_f32 (op0_' this) (to_size_t N) (to_size_t H)
                (to_size_t W) (data X) Y_shape)
      else if conv_type_' this = xnn_compute_type_qs8 then
        Some (xnn_setup_convolution2d_nhwc_qs8 (op0_' this) (to_size_t N) (to_size_t H)
                (to_size_t W) (data X) Y_shape)
      else if conv_type_' this = xnn_compute_type_qu8 then
        Some (xnn_setup_convolution2d_nhwc_qu8 (op0_' this) (to_size_t N) (to_size_t H)
                (to_size_t W) (data X) Y_shape)
      else if conv_type_' this = xnn_compute_type_qc8 then
        Some (xnn_setup_convolution2d_nhwc_qc8 (op0_' this) (to_size_t N) (to_size_t H)
                (to_size_t W) (data X) Y_shape)
      else None)"

text \<open>The part of \<^verbatim>\<open>Compute\<close> after the early return: setup, then run.\<close>

definition setup_and_run ::
  "xnn_native \<Rightarrow> Conv \<Rightarrow> int \<Rightarrow> int \<Rightarrow> int \<Rightarrow> Tensor \<Rightarrow> int list \<Rightarrow> compute_result" where
  "setup_and_run xnn this N H W X Y_shape =
     (let setup = setup_call this N H W X Y_shape;
          st = (case setup of Some c \<Rightarrow> xnn c | None \<Rightarrow> xnn_status_invalid_state);
          calls = (case setup of Some c \<Rightarrow> [c] | None \<Rightarrow> [])
      in if st \<noteq> xnn_status_success then
           \<lparr> compute_status = MakeStatus ONNXRUNTIME FAIL
                [Text ''xnn_setup_convolution2d_nhwc_f32 returned '', XnnStatus st],
             Y = Some Y_shape, native_calls = calls, self_after = this \<rparr>
         else
           (let run = xnn_run_operator (op0_' this); st2 = xnn run
            in if st2 \<noteq> xnn_status_success then
                 \<lparr> compute_status = MakeStatus ONNXRUNTIME FAIL
                      [Text ''xnn_run_operator returned '', XnnStatus st2],
                   Y = Some Y_shape, native_calls = calls @ [run], self_after = this \<rparr>
               else
                 \<lparr> compute_status = OK, Y = Some Y_shape, native_calls = calls @ [run],
                   self_after = this \<rparr>))"

definition Compute ::
  "InferPadsAndOutputShape \<Rightarrow> xnn_native \<Rightarrow> Conv \<Rightarrow> Tensor \<Rightarrow> error + compute_result" where
  "Compute infer xnn this X =
     (let X_shape = Shape X in
      bind (elem_at X_shape 0) (\<lambda>N.
      bind (elem_at X_shape 1) (\<lambda>H.
      bind (elem_at X_shape 2) (\<lambda>W.
      case infer (conv_attrs_' this) [H, W] (kernel_shape_' this)
             (strides (conv_attrs_' this)) (dilations (conv_attrs_' this))
             (pads (conv_attrs_' this)) [N] of
        (st, pads', Y_dims) \<Rightarrow>
          if st \<noteq> OK
          then Inr \<lparr> compute_status = st, Y = None, native_calls = [], self_after = this \<rparr>
          else
            (let Y_shape = Y_dims @ [M_' this] in
             if Size Y_shape = 0
             then Inr \<lparr> compute_status = OK, Y = Some Y_shape, native_calls = [],
                        self_after = this \<rparr>
             else Inr (setup_and_run xnn this N H W X Y_shape))))))"

text \<open>
  Modelled from the spec: the output extent of one spatial dimension by the standard
  padded-convolution formula (the body of \<^verbatim>\<open>InferPadsAndOutputShape\<close> in
  conv_attributes.h is absent).
\<close>

definition output_dim :: "int \<Rightarrow> int \<Rightarrow> int \<Rightarrow> int \<Rightarrow> int \<Rightarrow> int \<Rightarrow> int" where
  "output_dim in_dim stride kernel_dim dilation pad_head pad_tail =
     (in_dim + pad_head + pad_tail - (dilation * (kernel_dim - 1) + 1)) div stride + 1"

text \<open>
  Modelled from the spec: the body of \<^verbatim>\<open>InferPadsAndOutputShape\<close> (conv_attributes.h) is
  absent. For each spatial dimension it appends the output extent of the standard
  padded-convolution formula, with the pads at the head and at the tail of that
  dimension; it fails when an argument has too few entries or a stride is not positive.
\<close>

definition InferPadsAndOutputShape_spec :: InferPadsAndOutputShape where
  "InferPadsAndOutputShape_spec conv_attrs input_shape kernel_shape strides_p dilations_p pads_p output_shape =
     (let rank = length input_shape in
      if length kernel_shape < rank \<or> length strides_p < rank \<or> length dilations_p < rank
         \<or> length pads_p < 2 * rank \<or> list_ex (\<lambda>s. s \<le> 0) (take rank strides_p)
      then (MakeStatus ONNXRUNTIME INVALID_ARGUMENT [Text ''Invalid input shape''], pads_p, output_shape)
      else (OK, pads_p,
            output_shape @
            map (\<lambda>i. output_dim (input_shape ! i) (strides_p ! i) (kernel_shape ! i)
                      (dilations_p ! i) (pads_p ! i) (pads_p ! (rank + i)))
                [0..<rank]))"

subsection \<open>Concrete inputs\<close>

text \<open>
  A native library that accepts every creation call, and one whose setup and run calls
  return given statuses; a node with "same" padding, three input channels and two output
  channels, and the same node with explicit pads; its weight of shape {2, 3, 1, 2} as
  signed 8-bit, float and unsigned 8-bit elements; quantization tensors: an unsigned and
  a signed zero point, a scalar scale, the per-channel weight scale with one entry per
  output channel, and a weight scale of shape {1, 1}.
\<close>

definition xnn_create_ok :: xnn_create where
  "xnn_create_ok c = (xnn_status_success, Some (xnn_operator 1))"

definition xnn_native_status :: "xnn_status \<Rightarrow> xnn_status \<Rightarrow> xnn_native" where
  "xnn_native_status setup_st run_st c =
     (case c of xnn_run_operator h \<Rightarrow> run_st | _ \<Rightarrow> setup_st)"

definition example_attrs :: ConvAttributes where
  "example_attrs = \<lparr> auto_pad = SAME_UPPER, pads = [0, 0, 0, 0], strides = [1, 1],
       dilations = [1, 1], group = 1, activation = [] \<rparr>"

definition example_weight :: Tensor where
  "example_weight =
     \<lparr> Shape = [2, 3, 1, 2], data = int8_data [0, 1, 2, 3, 4, 5, 6, 7, 8, 9, 10, 11] \<rparr>"

definition example_weight_f32 :: Tensor where
  "example_weight_f32 =
     \<lparr> Shape = [2, 3, 1, 2], data = float_data (map (\<lambda>i. Finite (of_nat i)) [0..<12]) \<rparr>"

definition example_weight_u8 :: Tensor where
  "example_weight_u8 =
     \<lparr> Shape = [2, 3, 1, 2], data = uint8_data [0, 1, 2, 3, 4, 5, 6, 7, 8, 9, 10, 11] \<rparr>"

definition example_zero_point :: Tensor where
  "example_zero_point = \<lparr> Shape = [], data = uint8_data [0] \<rparr>"

definition signed_zero_point :: Tensor where
  "signed_zero_point = \<lparr> Shape = [], data = int8_data [0] \<rparr>"


definition example_scale :: Tensor where
  "example_scale = \<lparr> Shape = [], data = float_data [Finite (1 / 10)] \<rparr>"

definition per_channel_scale :: Tensor where
  "per_channel_scale = \<lparr> Shape = [2], data = float_data [Finite (1 / 2), Finite (1 / 4)] \<rparr>"

definition example_info_with ::
  "Tensor \<Rightarrow> TensorProto_DataType \<Rightarrow> Tensor option \<Rightarrow> OpKernelInfo" where
  "example_info_with zero_point x_type w_scale =
     \<lparr> node_name = ''conv'',
       constant_input = (\<lambda>i. if i = 2 \<or> i = 5 \<or> i = 7 then Some zero_point
                              else if i = 1 \<or> i = 6 then Some example_scale
                              else if i = 4 then w_scale
                              else if i = 3 then Some example_weight
                              else None),
       input_defs = replicate 8 True, X_dim3 = 3, X_elem_type = x_type,
       attr_activation = None, attr_activation_params = None, attrs = example_attrs \<rparr>"

definition example_info :: "TensorProto_DataType \<Rightarrow> Tensor option \<Rightarrow> OpKernelInfo" where
  "example_info = example_info_with example_zero_point"

definition signed_node_info :: OpKernelInfo where
  "signed_node_info =
     example_info_with signed_zero_point TensorProto_DataType_INT8 (Some per_channel_scale)"

definition example_quant_param :: QuantParam where
  "example_quant_param =
     \<lparr> X_zero_point_value = 0, W_zero_point_value = 0, Y_zero_point_value = 0,
       X_scale_value = Finite (1 / 10), W_scale_value = Finite (1 / 2),
       W_scale_arr = Some (float_data [Finite (1 / 2), Finite (1 / 4)]),
       Y_scale_value = Finite (1 / 10) \<rparr>"

definition example_conv :: "xnn_compute_type \<Rightarrow> Conv" where
  "example_conv ct =
     \<lparr> conv_attrs_' = example_attrs, clip_min_max_' = None, C_' = 3, M_' = 2,
       kernel_shape_' = [1, 2], conv_type_' = ct, quant_param_' = example_quant_param,
       B_' = None, packed_w_' = None, op0_' = None \<rparr>"

definition explicit_pads_conv :: "xnn_compute_type \<Rightarrow> Conv" where
  "explicit_pads_conv ct =
     (example_conv ct) \<lparr> conv_attrs_' := example_attrs \<lparr> auto_pad := NOTSET \<rparr> \<rparr>"

definition example_input :: "int \<Rightarrow> Tensor" where
  "example_input N = \<lparr> Shape = [N, 1, 2, 3], data = int8_data (replicate (nat N * 6) 0) \<rparr>"

section \<open>Properties\<close>

subsection \<open>Errors in sequence\<close>

lemma bind_Inr [simp]: "bind (Inr x) f = f x" by (simp add: bind_def)
lemma bind_Inl [simp]: "bind (Inl e) f = Inl e" by (simp add: bind_def)
lemma bind_eq_Inr: "bind m f = Inr y \<longleftrightarrow> (\<exists>x. m = Inr x \<and> f x = Inr y)"
  by (cases m) simp_all

text \<open>The definitions that a creation call on concrete arguments unfolds.\<close>

lemmas kernel_defs = CreateXnnpackKernel_def kernel_params_def chosen_call_def call_create_def
  create_status_def same_padding_flags_def narrow_at_def elem_at_def narrow_uint32_def
  cpp_div_def to_int32_def to_size_t_def XNN_FLAG_TENSORFLOW_SAME_PADDING_def

subsection \<open>Index arithmetic of the transposition\<close>

text \<open>
  Nested loops over ranges are one loop over the product range; an index of a row-major
  buffer and its position determine each other; the loop nest of \<^verbatim>\<open>SingleAxisTranspose\<close>
  for the axis 1 moved to the end reads the positions of the generic permutation
  {0, 2, 3, 1}, and the generic permutation {0, 3, 1, 2} undoes it.
\<close>

lemma concat_map_upt:
  "concat (map (\<lambda>i. map (g i) [0..<n]) [0..<m]) = map (\<lambda>k. g (k div n) (k mod n)) [0..<m * n]"
proof (induction m)
  case 0 show ?case by simp
next
  case (Suc m)
  let ?F = "\<lambda>k. g (k div n) (k mod n)"
  have split: "[0..<Suc m * n] = [0..<m * n] @ [m * n..<m * n + n]"
    using upt_add_eq_append[of 0 "m * n" n] by (simp add: add.commute)
  have last: "map ?F [m * n..<m * n + n] = map (g m) [0..<n]"
    by (rule nth_equalityI) simp_all
  have "concat (map (\<lambda>i. map (g i) [0..<n]) [0..<Suc m])
      = concat (map (\<lambda>i. map (g i) [0..<n]) [0..<m]) @ map (g m) [0..<n]" by simp
  also have "\<dots> = map ?F [0..<m * n] @ map ?F [m * n..<m * n + n]" by (simp only: Suc last)
  also have "\<dots> = map ?F [0..<Suc m * n]" by (simp only: split map_append)
  finally show ?case .
qed

lemma source_indices_flat:
  "source_indices L R I 1 =
     map (\<lambda>k. (k div (I * R) * R + k mod (I * R) mod R) * I + k mod (I * R) div R) [0..<L * (I * R)]"
  by (simp add: source_indices_def concat_map_upt)

lemma row_major_strides_Cons:
  "row_major_strides (d # ds) = prod_list ds # row_major_strides ds"
  by (simp add: row_major_strides_def upt_rec[of 0] map_Suc_upt[symmetric] del: upt_Suc)

lemma flat_index_Cons:
  "flat_index (i # idx) (s # ss) = i * s + flat_index idx ss"
  by (simp add: flat_index_def)

lemma unflatten_bounds:
  "pos < prod_list ds \<Longrightarrow> list_all2 (<) (unflatten ds pos) ds"
proof (induction ds arbitrary: pos)
  case Nil show ?case by simp
next
  case (Cons d ds)
  from Cons.prems have P: "0 < prod_list ds" by (cases "prod_list ds = 0") auto
  have "pos div prod_list ds < d"
    using Cons.prems P by (simp add: less_mult_imp_div_less mult.commute)
  moreover have "pos mod prod_list ds < prod_list ds" using P by simp
  ultimately show ?case using Cons.IH by simp
qed

lemma flat_unflatten:
  "pos < prod_list ds \<Longrightarrow> flat_index (unflatten ds pos) (row_major_strides ds) = pos"
proof (induction ds arbitrary: pos)
  case Nil then show ?case by (simp add: flat_index_def)
next
  case (Cons d ds)
  from Cons.prems have P: "0 < prod_list ds" by (cases "prod_list ds = 0") auto
  then have "pos mod prod_list ds < prod_list ds" by simp
  from Cons.IH[OF this] show ?case
    by (simp add: row_major_strides_Cons flat_index_Cons)
qed

lemma flat_index_bound:
  "list_all2 (<) idx ds \<Longrightarrow> flat_index idx (row_major_strides ds) < prod_list ds"
proof (induction rule: list_all2_induct)
  case Nil show ?case by (simp add: flat_index_def row_major_strides_def)
next
  case (Cons i idx d ds)
  have "i * prod_list ds + flat_index idx (row_major_strides ds) < i * prod_list ds + prod_list ds"
    using Cons.IH by simp
  also have "\<dots> = Suc i * prod_list ds" by simp
  also have "\<dots> \<le> d * prod_list ds" using Cons.hyps(1) by (intro mult_le_mono1) simp
  finally show ?case by (simp add: row_major_strides_Cons flat_index_Cons)
qed

lemma unflatten_flat:
  "list_all2 (<) idx ds \<Longrightarrow> unflatten ds (flat_index idx (row_major_strides ds)) = idx"
proof (induction rule: list_all2_induct)
  case Nil show ?case by simp
next
  case (Cons i idx d ds)
  have b: "flat_index idx (row_major_strides ds) < prod_list ds"
    using Cons.hyps(2) by (rule flat_index_bound)
  then show ?case using Cons.IH
    by (simp add: row_major_strides_Cons flat_index_Cons)
qed


lemma length_permuted_sources [simp]:
  "length (permuted_sources perm ds) = prod_list ds"
  by (simp add: permuted_sources_def)

lemma strides4:
  "row_major_strides [a, b, c, d] = [b * c * d, c * d, d, 1]"
  by (simp add: row_major_strides_Cons row_major_strides_def mult.assoc)

lemma unflatten4:
  assumes "q < a * b * c * d"
  obtains i j k l where "unflatten [a, b, c, d] q = [i, j, k, l]"
    and "i < a" and "j < b" and "k < c" and "l < d"
    and "q = flat_index [i, j, k, l] (row_major_strides [a, b, c, d])"
proof -
  from assms have q: "q < prod_list [a, b, c, d]" by (simp add: mult.assoc)
  from unflatten_bounds[OF q] obtain i j k l where
    u: "unflatten [a, b, c, d] q = [i, j, k, l]" and b: "i < a" "j < b" "k < c" "l < d"
    by (auto simp: list_all2_Cons2 simp del: unflatten.simps)
  from flat_unflatten[OF q] u have "q = flat_index [i, j, k, l] (row_major_strides [a, b, c, d])"
    by (simp del: unflatten.simps)
  with u b show thesis by (rule that)
qed

lemma forward_source:
  assumes "q < M * H * W * C"
  obtains m h w c where "m < M" and "h < H" and "w < W" and "c < C"
    and "q = flat_index [m, h, w, c] (row_major_strides [M, H, W, C])"
    and "permuted_sources [0, 2, 3, 1] [M, C, H, W] ! q
           = flat_index [m, c, h, w] (row_major_strides [M, C, H, W])"
proof -
  from unflatten4[OF assms] obtain m h w c where
    u: "unflatten [M, H, W, C] q = [m, h, w, c]" and b: "m < M" "h < H" "w < W" "c < C"
    and q: "q = flat_index [m, h, w, c] (row_major_strides [M, H, W, C])" by blast
  have lt: "q < prod_list [M, C, H, W]" using assms by (simp add: ac_simps)
  have "permuted_sources [0, 2, 3, 1] [M, C, H, W] ! q
      = flat_index (unflatten [M, H, W, C] q) [C * H * W, W, 1, H * W]"
    using lt by (simp add: permuted_sources_def strides4 del: unflatten.simps)
  also have "\<dots> = flat_index [m, c, h, w] (row_major_strides [M, C, H, W])"
    by (simp only: u) (simp add: strides4 flat_index_def)
  finally show thesis using b q by (intro that)
qed

lemma backward_source:
  assumes "q < M * C * H * W"
  obtains m c h w where "m < M" and "c < C" and "h < H" and "w < W"
    and "q = flat_index [m, c, h, w] (row_major_strides [M, C, H, W])"
    and "permuted_sources [0, 3, 1, 2] [M, H, W, C] ! q
           = flat_index [m, h, w, c] (row_major_strides [M, H, W, C])"
proof -
  from unflatten4[OF assms] obtain m c h w where
    u: "unflatten [M, C, H, W] q = [m, c, h, w]" and b: "m < M" "c < C" "h < H" "w < W"
    and q: "q = flat_index [m, c, h, w] (row_major_strides [M, C, H, W])" by blast
  have lt: "q < prod_list [M, H, W, C]" using assms by (simp add: ac_simps)
  have "permuted_sources [0, 3, 1, 2] [M, H, W, C] ! q
      = flat_index (unflatten [M, C, H, W] q) [H * W * C, 1, W * C, C]"
    using lt by (simp add: permuted_sources_def strides4 del: unflatten.simps)
  also have "\<dots> = flat_index [m, h, w, c] (row_major_strides [M, H, W, C])"
    by (simp only: u) (simp add: strides4 flat_index_def)
  finally show thesis using b q by (intro that)
qed

lemma flat4_bound:
  "i < a \<Longrightarrow> j < b \<Longrightarrow> k < c \<Longrightarrow> l < d \<Longrightarrow>
   flat_index [i, j, k, l] (row_major_strides [a, b, c, d]) < a * b * c * d"
  using flat_index_bound[of "[i, j, k, l]" "[a, b, c, d]"] by (simp add: mult.assoc)

lemma forward_in_range:
  assumes "q < M * H * W * C"
  shows "permuted_sources [0, 2, 3, 1] [M, C, H, W] ! q < M * C * H * W"
  using forward_source[OF assms] flat4_bound by metis

lemma backward_in_range:
  assumes "q < M * C * H * W"
  shows "permuted_sources [0, 3, 1, 2] [M, H, W, C] ! q < M * H * W * C"
  using backward_source[OF assms] flat4_bound by metis

lemma roundtrip_index:
  assumes "q < M * C * H * W"
  shows "permuted_sources [0, 2, 3, 1] [M, C, H, W] ! (permuted_sources [0, 3, 1, 2] [M, H, W, C] ! q) = q"
proof -
  from backward_source[OF assms] obtain m c h w where
    b: "m < M" "c < C" "h < H" "w < W"
    and q: "q = flat_index [m, c, h, w] (row_major_strides [M, C, H, W])"
    and s: "permuted_sources [0, 3, 1, 2] [M, H, W, C] ! q
           = flat_index [m, h, w, c] (row_major_strides [M, H, W, C])" by blast
  let ?p = "flat_index [m, h, w, c] (row_major_strides [M, H, W, C])"
  have p: "?p < M * H * W * C" using b by (intro flat4_bound)
  have u: "unflatten [M, H, W, C] ?p = [m, h, w, c]"
    using b by (intro unflatten_flat) simp
  have lt: "?p < prod_list [M, C, H, W]" using p by (simp add: ac_simps)
  have "permuted_sources [0, 2, 3, 1] [M, C, H, W] ! ?p
      = flat_index (unflatten [M, H, W, C] ?p) [C * H * W, W, 1, H * W]"
    using lt by (simp add: permuted_sources_def strides4 del: unflatten.simps)
  also have "\<dots> = flat_index [m, c, h, w] (row_major_strides [M, C, H, W])"
    by (simp only: u) (simp add: strides4 flat_index_def)
  finally show ?thesis using q s by simp
qed

lemma div_mod_split:
  fixes t :: nat
  assumes "0 < C"
  shows "t div C = t div (W * C) * W + t mod (W * C) div C"
    and "t mod (W * C) mod C = t mod C"
proof -
  have e: "t = t div (W * C) * W * C + t mod (W * C)"
    using div_mult_mod_eq[of t "W * C"] by (simp add: mult.assoc)
  have "t div C = (t div (W * C) * W * C + t mod (W * C)) div C"
    by (rule arg_cong[OF e, of "\<lambda>x. x div C"])
  also have "\<dots> = t div (W * C) * W + t mod (W * C) div C"
    using assms by simp
  finally show "t div C = t div (W * C) * W + t mod (W * C) div C" .
  show "t mod (W * C) mod C = t mod C"
    by (simp add: mod_mod_cancel)
qed

lemma source_indices_permuted:
  "source_indices M C (H * W) 1 = permuted_sources [0, 2, 3, 1] [M, C, H, W]"
proof (rule nth_equalityI)
  show "length (source_indices M C (H * W) 1) = length (permuted_sources [0, 2, 3, 1] [M, C, H, W])"
    unfolding source_indices_flat by (simp add: ac_simps)
next
  fix q assume "q < length (source_indices M C (H * W) 1)"
  then have q: "q < M * (H * W * C)" unfolding source_indices_flat by simp
  then have C: "0 < C" by (cases "C = 0") auto
  have lt: "q < prod_list [M, C, H, W]" using q by (simp add: ac_simps)
  let ?t = "q mod (H * W * C)"
  have "permuted_sources [0, 2, 3, 1] [M, C, H, W] ! q
      = q div (H * W * C) * (C * H * W) + ?t div (W * C) * W + ?t mod (W * C) div C
        + ?t mod (W * C) mod C * (H * W)"
    using lt by (simp add: permuted_sources_def strides4 flat_index_def mult.assoc)
  also have "\<dots> = (q div (H * W * C) * C + ?t mod C) * (H * W) + ?t div C"
    using div_mod_split[OF C, of ?t W] by (simp add: algebra_simps)
  also have "\<dots> = source_indices M C (H * W) 1 ! q"
    unfolding source_indices_flat using q by simp
  finally show "source_indices M C (H * W) 1 ! q = permuted_sources [0, 2, 3, 1] [M, C, H, W] ! q"
    by simp
qed


lemma gather_Inr:
  "\<forall>i \<in> set idxs. i < length xs \<Longrightarrow> gather idxs xs = Inr (map ((!) xs) idxs)"
  by (simp add: gather_def list_all_iff)

lemma nth_compose:
  assumes r2: "\<forall>j \<in> set idxs2. j < length idxs1"
      and comp: "map ((!) idxs1) idxs2 = [0..<length xs]"
  shows "map ((!) (map ((!) xs) idxs1)) idxs2 = xs"
proof -
  have "map ((!) (map ((!) xs) idxs1)) idxs2 = map ((!) xs) (map ((!) idxs1) idxs2)"
    using r2 by simp
  also have "\<dots> = xs" by (simp only: comp map_nth)
  finally show ?thesis .
qed

lemma gather_roundtrip:
  assumes r1: "\<forall>i \<in> set idxs1. i < length xs"
      and r2: "\<forall>j \<in> set idxs2. j < length idxs1"
      and comp: "map ((!) idxs1) idxs2 = [0..<length xs]"
  shows "gather idxs1 xs = Inr (map ((!) xs) idxs1)"
    and "gather idxs2 (map ((!) xs) idxs1) = Inr xs"
proof -
  show "gather idxs1 xs = Inr (map ((!) xs) idxs1)" using r1 by (rule gather_Inr)
  have "gather idxs2 (map ((!) xs) idxs1) = Inr (map ((!) (map ((!) xs) idxs1)) idxs2)"
    using r2 by (intro gather_Inr) simp
  then show "gather idxs2 (map ((!) xs) idxs1) = Inr xs"
    by (simp only: nth_compose[OF r2 comp])
qed

lemma gather_data_roundtrip:
  assumes "\<forall>i \<in> set idxs1. i < data_length d"
      and "\<forall>j \<in> set idxs2. j < length idxs1"
      and "map ((!) idxs1) idxs2 = [0..<data_length d]"
  shows "\<exists>d'. gather_data idxs1 d = Inr d' \<and> gather_data idxs2 d' = Inr d \<and>
              (\<forall>s s'. DataType \<lparr> Shape = s', data = d' \<rparr> = DataType \<lparr> Shape = s, data = d \<rparr>)"
proof (cases d)
  case (float_data xs)
  with assms gather_roundtrip[of idxs1 xs idxs2] show ?thesis by (simp add: DataType_def)
next
  case (int8_data xs)
  with assms gather_roundtrip[of idxs1 xs idxs2] show ?thesis by (simp add: DataType_def)
next
  case (uint8_data xs)
  with assms gather_roundtrip[of idxs1 xs idxs2] show ?thesis by (simp add: DataType_def)
next
  case (int32_data xs)
  with assms gather_roundtrip[of idxs1 xs idxs2] show ?thesis by (simp add: DataType_def)
qed

lemma source_indices_permuted':
  "source_indices M C (H * W) (Suc 0) = permuted_sources [0, 2, 3, 1] [M, C, H, W]"
  using source_indices_permuted[of M C H W] by simp

lemma PrePack_packed:
  assumes "PrePack xnn this tensor idx alloc = Inr r" and "is_packed r"
  shows "\<exists>packed. pack_weight tensor alloc = Inr packed \<and> packed_w_' (self r) = Some packed"
proof -
  have w: "is_weight_input this idx"
    using assms by (cases "is_weight_input this idx") (auto simp: PrePack_def)
  with assms(1) show ?thesis
    by (auto simp: PrePack_def bind_eq_Inr Let_def split: if_splits)
qed

lemma forward_at:
  assumes "m < M" and "h < H" and "w < W" and "c < C"
  shows "((m * H + h) * W + w) * C + c < M * H * W * C"
    and "permuted_sources [0, 2, 3, 1] [M, C, H, W] ! (((m * H + h) * W + w) * C + c)
           = ((m * C + c) * H + h) * W + w"
proof -
  let ?p = "flat_index [m, h, w, c] (row_major_strides [M, H, W, C])"
  have pe: "?p = ((m * H + h) * W + w) * C + c"
    by (simp add: strides4 flat_index_def algebra_simps)
  have p: "?p < M * H * W * C" using assms by (intro flat4_bound)
  have u: "unflatten [M, H, W, C] ?p = [m, h, w, c]"
    using assms by (intro unflatten_flat) simp
  have lt: "?p < prod_list [M, C, H, W]" using p by (simp add: ac_simps)
  have "permuted_sources [0, 2, 3, 1] [M, C, H, W] ! ?p
      = flat_index (unflatten [M, H, W, C] ?p) [C * H * W, W, 1, H * W]"
    using lt by (simp add: permuted_sources_def strides4 del: unflatten.simps)
  also have "\<dots> = ((m * C + c) * H + h) * W + w"
    by (simp only: u) (simp add: flat_index_def algebra_simps)
  finally have "permuted_sources [0, 2, 3, 1] [M, C, H, W] ! ?p = ((m * C + c) * H + h) * W + w" .
  then show "permuted_sources [0, 2, 3, 1] [M, C, H, W] ! (((m * H + h) * W + w) * C + c)
           = ((m * C + c) * H + h) * W + w"
    by (simp only: pe)
  show "((m * H + h) * W + w) * C + c < M * H * W * C" using p by (simp only: pe)
qed

lemma gather_data_element:
  assumes "gather_data idxs d = Inr d'" and "q < length idxs"
  shows "element_at d' q = element_at d (idxs ! q)"
  using assms by (cases d) (auto simp: gather_def list_all_length split: if_splits)

lemma gather_data_length:
  assumes "gather_data idxs d = Inr d'"
  shows "data_length d' = length idxs"
  using assms by (cases d) (auto simp: gather_def split: if_splits)

lemma PrePack_weight_input:
  assumes "is_weight_input this idx" and "pack_weight tensor alloc = Inr packed"
  shows "PrePack xnn this tensor idx alloc =
     (case CreateXnnpackKernel xnn (conv_attrs_' this) (C_' this) (M_' this) (kernel_shape_' this)
             (clip_min_max_' this) packed (B_' this) (quant_param_' this) (conv_type_' this) of
        Inl e \<Rightarrow> Inl e
      | Inr ret \<Rightarrow>
          Inr \<lparr> prepack_status = status ret, is_packed = True,
                self = (if status ret = OK
                        then this \<lparr> packed_w_' := Some packed, op0_' := p ret \<rparr>
                        else this \<lparr> packed_w_' := Some packed \<rparr>),
                prepack_calls = create_calls ret \<rparr>)"
  using assms by (simp add: PrePack_def Let_def bind_def split: sum.splits)

section \<open>The claims\<close>

text \<open>
  C1. For the int8 per-channel (qc8) variant, kernel construction is to pass the
  weight-scale array retained by the classifier, one entry per output channel, to the
  creation call. With signed 8-bit input, zero points the classifier can read and a
  weight scale of two entries (two output channels), the classifier chooses the
  per-channel variant and retains both entries in \<^verbatim>\<open>W_scale_arr\<close>, but the creation call
  receives the address of the single float \<^verbatim>\<open>W_scale_value\<close>: a buffer of one entry, the
  first scale.
\<close>

theorem qc8_kernel_scale_is_single_value:
  "ParseQuantParamAndConType (example_info TensorProto_DataType_INT8 (Some per_channel_scale))
       QuantParam_init TensorProto_DataType_INT8
     = Inr (xnn_compute_type_qc8, example_quant_param)
   \<and> W_scale_arr example_quant_param = Some (float_data [Finite (1 / 2), Finite (1 / 4)])
   \<and> map_sum id (map qc8_kernel_scale \<circ> create_calls)
        (CreateXnnpackKernel xnn_create_ok example_attrs 3 2 [1, 2] None example_weight None
           example_quant_param xnn_compute_type_qc8)
     = Inr [float_data [Finite (1 / 2)]]"
proof (intro conjI)
  show "ParseQuantParamAndConType (example_info TensorProto_DataType_INT8 (Some per_channel_scale))
       QuantParam_init TensorProto_DataType_INT8
     = Inr (xnn_compute_type_qc8, example_quant_param)"
    by (simp add: ParseQuantParamAndConType_def enforce_constant_input_def example_info_def
          example_info_with_def IN_X_ZERO_POINT_def IN_W_ZERO_POINT_def IN_Y_ZERO_POINT_def IN_X_SCALE_def
          IN_W_SCALE_def IN_Y_SCALE_def deref_uint8_def deref_float_def example_zero_point_def
          example_scale_def per_channel_scale_def IsScalarOr1ElementVector_def Size_def
          QuantParam_init_def example_quant_param_def)
  show "W_scale_arr example_quant_param = Some (float_data [Finite (1 / 2), Finite (1 / 4)])"
    by (simp add: example_quant_param_def)
  show "map_sum id (map qc8_kernel_scale \<circ> create_calls)
        (CreateXnnpackKernel xnn_create_ok example_attrs 3 2 [1, 2] None example_weight None
           example_quant_param xnn_compute_type_qc8)
     = Inr [float_data [Finite (1 / 2)]]"
    by (simp add: kernel_defs example_attrs_def xnn_create_ok_def example_quant_param_def)
qed

text \<open>
  C2. For every precision variant, "same" auto-padding is to set the same-padding flag
  of the creation call. On a node with \<^verbatim>\<open>auto_pad = SAME_UPPER\<close> the float call
  receives the flag (4), while the calls of the three quantized variants receive 0: the
  flags computed in the shared prologue are passed on by the float branch only.
\<close>

theorem same_padding_flag_only_on_float_path:
  "map_sum id (map flags \<circ> create_calls)
     (CreateXnnpackKernel xnn_create_ok example_attrs 3 2 [1, 2] None example_weight_f32 None
        example_quant_param xnn_compute_type_fp32) = Inr [XNN_FLAG_TENSORFLOW_SAME_PADDING]
   \<and> map_sum id (map flags \<circ> create_calls)
     (CreateXnnpackKernel xnn_create_ok example_attrs 3 2 [1, 2] None example_weight None
        example_quant_param xnn_compute_type_qs8) = Inr [0]
   \<and> map_sum id (map flags \<circ> create_calls)
     (CreateXnnpackKernel xnn_create_ok example_attrs 3 2 [1, 2] None example_weight None
        example_quant_param xnn_compute_type_qc8) = Inr [0]
   \<and> map_sum id (map flags \<circ> create_calls)
     (CreateXnnpackKernel xnn_create_ok example_attrs 3 2 [1, 2] None example_weight_u8 None
        example_quant_param xnn_compute_type_qu8) = Inr [0]"
  by (simp add: kernel_defs example_attrs_def xnn_create_ok_def)

text \<open>
  The typed read of the zero points. On a node whose zero-point tensors are signed 8-bit,
  as those of a signed 8-bit input are, the classifier does not return: the first read,
  \<^verbatim>\<open>X_zero_point->Data<uint8_t>()\<close>, throws.
\<close>

lemma signed_zero_point_read_throws:
  "ParseQuantParamAndConType signed_node_info QuantParam_init TensorProto_DataType_INT8
     = Inl (ORT_ENFORCE_failed ''Tensor type mismatch. '')"
  by (simp add: ParseQuantParamAndConType_def enforce_constant_input_def signed_node_info_def
        example_info_with_def IN_X_ZERO_POINT_def IN_W_ZERO_POINT_def IN_Y_ZERO_POINT_def IN_X_SCALE_def IN_W_SCALE_def IN_Y_SCALE_def deref_uint8_def signed_zero_point_def)






text \<open>
  C5. For every weight tensor of shape {M, C/group, kH, kW}, the transformation in
  \<^verbatim>\<open>PrePack\<close> yields a tensor of shape {M, kH, kW, C/group} with the element type of
  the source. Its element at {m, h, w, c} is the element of the source at {m, c, h, w};
  it is the generic permutation {0, 2, 3, 1} of the source, and the generic inverse
  permutation {0, 3, 1, 2} of it is the source again, element for element. A \<^verbatim>\<open>PrePack\<close>
  call on the weight position (1 on the float path, 3 otherwise) stores exactly this
  tensor in \<^verbatim>\<open>packed_w_\<close> and reports \<^verbatim>\<open>is_packed = true\<close>, with the status, the calls
  and the handle of the kernel construction that follows (whose exception it passes on).
\<close>

theorem pack_weight_permutation_roundtrip:
  assumes shape: "Shape tensor = [int M, int Cg, int kH, int kW]"
      and len: "data_length (data tensor) = M * Cg * kH * kW"
      and al: "alloc (nat (Size [int M, int kH, int kW, int Cg]) * element_size (data tensor))"
  shows "\<exists>packed. pack_weight tensor alloc = Inr packed
            \<and> Shape packed = [int M, int kH, int kW, int Cg]
            \<and> DataType packed = DataType tensor
            \<and> (\<forall>m < M. \<forall>c < Cg. \<forall>h < kH. \<forall>w < kW.
                  element_at (data packed) (((m * kH + h) * kW + w) * Cg + c)
                    = element_at (data tensor) (((m * Cg + c) * kH + h) * kW + w)
                  \<and> element_at (data packed) (((m * kH + h) * kW + w) * Cg + c) \<noteq> None)
            \<and> data_length (data packed) = M * kH * kW * Cg
            \<and> Transpose_generic [0, 2, 3, 1] tensor = Inr packed
            \<and> Transpose_generic [0, 3, 1, 2] packed = Inr tensor
            \<and> (\<forall>xnn this idx.
                  (conv_type_' this = xnn_compute_type_fp32 \<and> idx = 1) \<or>
                  (conv_type_' this \<noteq> xnn_compute_type_fp32 \<and> idx = 3) \<longrightarrow>
                  PrePack xnn this tensor idx alloc =
                    (case CreateXnnpackKernel xnn (conv_attrs_' this) (C_' this) (M_' this)
                            (kernel_shape_' this) (clip_min_max_' this) packed (B_' this)
                            (quant_param_' this) (conv_type_' this) of
                       Inl e \<Rightarrow> Inl e
                     | Inr ret \<Rightarrow>
                         Inr \<lparr> prepack_status = status ret, is_packed = True,
                               self = (if status ret = OK
                                       then this \<lparr> packed_w_' := Some packed, op0_' := p ret \<rparr>
                                       else this \<lparr> packed_w_' := Some packed \<rparr>),
                               prepack_calls = create_calls ret \<rparr>))
            \<and> (\<forall>xnn this idx r. PrePack xnn this tensor idx alloc = Inr r \<and> is_packed r
                  \<longrightarrow> packed_w_' (self r) = Some packed)"
proof -
  let ?S1 = "permuted_sources [0, 2, 3, 1] [M, Cg, kH, kW]"
  let ?S2 = "permuted_sources [0, 3, 1, 2] [M, kH, kW, Cg]"
  have n1: "length ?S1 = M * Cg * kH * kW" and n2: "length ?S2 = M * Cg * kH * kW"
    by (simp_all add: ac_simps)
  have r1: "\<forall>i \<in> set ?S1. i < data_length (data tensor)"
  proof
    fix i assume "i \<in> set ?S1"
    then obtain q where "q < length ?S1" "i = ?S1 ! q" by (auto simp: in_set_conv_nth)
    then show "i < data_length (data tensor)"
      using forward_in_range[of q M kH kW Cg] len by (simp add: ac_simps)
  qed
  have r2: "\<forall>j \<in> set ?S2. j < length ?S1"
  proof
    fix j assume "j \<in> set ?S2"
    then obtain q where "q < length ?S2" "j = ?S2 ! q" by (auto simp: in_set_conv_nth)
    then show "j < length ?S1"
      using backward_in_range[of q M Cg kH kW] by (simp add: ac_simps)
  qed
  have comp: "map ((!) ?S1) ?S2 = [0..<data_length (data tensor)]"
  proof (rule nth_equalityI)
    show "length (map ((!) ?S1) ?S2) = length [0..<data_length (data tensor)]"
      using len by (simp add: ac_simps)
  next
    fix q assume "q < length (map ((!) ?S1) ?S2)"
    then have q: "q < M * Cg * kH * kW" by (simp add: ac_simps)
    have "q < length ?S2" using q by (simp add: ac_simps)
    then have "map ((!) ?S1) ?S2 ! q = ?S1 ! (?S2 ! q)" by (simp only: nth_map)
    then show "map ((!) ?S1) ?S2 ! q = [0..<data_length (data tensor)] ! q"
      using roundtrip_index[OF q] q len by simp
  qed
  from gather_data_roundtrip[OF r1 r2 comp] obtain d' where
    g1: "gather_data ?S1 (data tensor) = Inr d'" and
    g2: "gather_data ?S2 d' = Inr (data tensor)" and
    ty: "\<And>s s'. DataType \<lparr> Shape = s', data = d' \<rparr> = DataType \<lparr> Shape = s, data = data tensor \<rparr>"
    by blast
  let ?packed = "\<lparr> Shape = [int M, int kH, int kW, int Cg], data = d' \<rparr>"
  have sat: "SingleAxisTranspose tensor 1 3 = Inr d'"
    using g1 by (simp add: SingleAxisTranspose_def shape source_indices_permuted')
  have pw: "pack_weight tensor alloc = Inr ?packed"
    using al sat by (simp add: pack_weight_def shape elem_at_def)
  have t: "tensor = \<lparr> Shape = Shape tensor, data = data tensor \<rparr>" by simp
  have dt: "DataType ?packed = DataType tensor"
    using ty[of "[int M, int kH, int kW, int Cg]" "Shape tensor"] by (simp add: DataType_def)
  have fwd: "Transpose_generic [0, 2, 3, 1] tensor = Inr ?packed"
    using g1 by (simp add: Transpose_generic_def shape)
  have bwd: "Transpose_generic [0, 3, 1, 2] ?packed = Inr tensor"
    using g2 shape by (simp add: Transpose_generic_def)
  have pp: "\<forall>xnn this idx r. PrePack xnn this tensor idx alloc = Inr r \<and> is_packed r
                  \<longrightarrow> packed_w_' (self r) = Some ?packed"
    using PrePack_packed pw by fastforce
  have packs: "\<forall>xnn this idx.
                  (conv_type_' this = xnn_compute_type_fp32 \<and> idx = 1) \<or>
                  (conv_type_' this \<noteq> xnn_compute_type_fp32 \<and> idx = 3) \<longrightarrow>
                  PrePack xnn this tensor idx alloc =
                    (case CreateXnnpackKernel xnn (conv_attrs_' this) (C_' this) (M_' this)
                            (kernel_shape_' this) (clip_min_max_' this) ?packed (B_' this)
                            (quant_param_' this) (conv_type_' this) of
                       Inl e \<Rightarrow> Inl e
                     | Inr ret \<Rightarrow>
                         Inr \<lparr> prepack_status = status ret, is_packed = True,
                               self = (if status ret = OK
                                       then this \<lparr> packed_w_' := Some ?packed, op0_' := p ret \<rparr>
                                       else this \<lparr> packed_w_' := Some ?packed \<rparr>),
                               prepack_calls = create_calls ret \<rparr>)"
  proof (intro allI impI)
    fix xnn :: xnn_create and this :: Conv and idx :: int
    assume "(conv_type_' this = xnn_compute_type_fp32 \<and> idx = 1) \<or>
            (conv_type_' this \<noteq> xnn_compute_type_fp32 \<and> idx = 3)"
    then have "is_weight_input this idx" by (simp add: is_weight_input_def IN_W_def)
    then show "PrePack xnn this tensor idx alloc =
                    (case CreateXnnpackKernel xnn (conv_attrs_' this) (C_' this) (M_' this)
                            (kernel_shape_' this) (clip_min_max_' this) ?packed (B_' this)
                            (quant_param_' this) (conv_type_' this) of
                       Inl e \<Rightarrow> Inl e
                     | Inr ret \<Rightarrow>
                         Inr \<lparr> prepack_status = status ret, is_packed = True,
                               self = (if status ret = OK
                                       then this \<lparr> packed_w_' := Some ?packed, op0_' := p ret \<rparr>
                                       else this \<lparr> packed_w_' := Some ?packed \<rparr>),
                               prepack_calls = create_calls ret \<rparr>)"
      using pw by (rule PrePack_weight_input)
  qed
  have elems: "\<forall>m < M. \<forall>c < Cg. \<forall>h < kH. \<forall>w < kW.
                  element_at (data ?packed) (((m * kH + h) * kW + w) * Cg + c)
                    = element_at (data tensor) (((m * Cg + c) * kH + h) * kW + w)
                  \<and> element_at (data ?packed) (((m * kH + h) * kW + w) * Cg + c) \<noteq> None"
  proof (intro allI impI)
    fix m c h w assume b: "m < M" "c < Cg" "h < kH" "w < kW"
    let ?q = "((m * kH + h) * kW + w) * Cg + c"
    let ?o = "((m * Cg + c) * kH + h) * kW + w"
    have q: "?q < M * kH * kW * Cg" by (rule forward_at(1)[OF b(1) b(3) b(4) b(2)])
    have sq: "?S1 ! ?q = ?o" by (rule forward_at(2)[OF b(1) b(3) b(4) b(2)])
    have ql: "?q < length ?S1" using q by (simp only: n1 ac_simps)
    have e: "element_at d' ?q = element_at (data tensor) ?o"
      using gather_data_element[OF g1 ql] by (simp only: sq)
    have "?S1 ! ?q \<in> set ?S1" using ql by (rule nth_mem)
    with r1 have "?S1 ! ?q < data_length (data tensor)" by (rule bspec)
    then have o: "?o < data_length (data tensor)" by (simp only: sq)
    have ne: "element_at (data tensor) ?o \<noteq> None"
    proof (cases "data tensor")
      case (float_data xs) with o show ?thesis by simp
    next
      case (int8_data xs) with o show ?thesis by simp
    next
      case (uint8_data xs) with o show ?thesis by simp
    next
      case (int32_data xs) with o show ?thesis by simp
    qed
    have dp: "data ?packed = d'" by simp
    show "element_at (data ?packed) ?q = element_at (data tensor) ?o
                 \<and> element_at (data ?packed) ?q \<noteq> None"
      using e ne by (simp only: dp) simp
  qed
  have plen: "data_length (data ?packed) = M * kH * kW * Cg"
    using gather_data_length[OF g1] by (simp add: ac_simps)
  show ?thesis
  proof (intro exI[of _ ?packed] conjI)
    show "pack_weight tensor alloc = Inr ?packed" by (rule pw)
    show "Shape ?packed = [int M, int kH, int kW, int Cg]" by simp
    show "DataType ?packed = DataType tensor" by (rule dt)
    show "\<forall>m < M. \<forall>c < Cg. \<forall>h < kH. \<forall>w < kW.
                  element_at (data ?packed) (((m * kH + h) * kW + w) * Cg + c)
                    = element_at (data tensor) (((m * Cg + c) * kH + h) * kW + w)
                  \<and> element_at (data ?packed) (((m * kH + h) * kW + w) * Cg + c) \<noteq> None"
      by (rule elems)
    show "data_length (data ?packed) = M * kH * kW * Cg" by (rule plen)
    show "Transpose_generic [0, 2, 3, 1] tensor = Inr ?packed" by (rule fwd)
    show "Transpose_generic [0, 3, 1, 2] ?packed = Inr tensor" by (rule bwd)
    show "\<forall>xnn this idx.
                  (conv_type_' this = xnn_compute_type_fp32 \<and> idx = 1) \<or>
                  (conv_type_' this \<noteq> xnn_compute_type_fp32 \<and> idx = 3) \<longrightarrow>
                  PrePack xnn this tensor idx alloc =
                    (case CreateXnnpackKernel xnn (conv_attrs_' this) (C_' this) (M_' this)
                            (kernel_shape_' this) (clip_min_max_' this) ?packed (B_' this)
                            (quant_param_' this) (conv_type_' this) of
                       Inl e \<Rightarrow> Inl e
                     | Inr ret \<Rightarrow>
                         Inr \<lparr> prepack_status = status ret, is_packed = True,
                               self = (if status ret = OK
                                       then this \<lparr> packed_w_' := Some ?packed, op0_' := p ret \<rparr>
                                       else this \<lparr> packed_w_' := Some ?packed \<rparr>),
                               prepack_calls = create_calls ret \<rparr>)" by (rule packs)
    show "\<forall>xnn this idx r. PrePack xnn this tensor idx alloc = Inr r \<and> is_packed r
                  \<longrightarrow> packed_w_' (self r) = Some ?packed" by (rule pp)
  qed
qed

theorem pack_weight_permutation_roundtrip_witness:
  "pack_weight example_weight (\<lambda>n. True)
     = Inr \<lparr> Shape = [2, 1, 2, 3], data = int8_data [0, 2, 4, 1, 3, 5, 6, 8, 10, 7, 9, 11] \<rparr>
   \<and> Transpose_generic [0, 3, 1, 2]
        \<lparr> Shape = [2, 1, 2, 3], data = int8_data [0, 2, 4, 1, 3, 5, 6, 8, 10, 7, 9, 11] \<rparr>
     = Inr example_weight
   \<and> (\<exists>r. PrePack xnn_create_ok (example_conv xnn_compute_type_qs8) example_weight 3 (\<lambda>n. True) = Inr r
         \<and> prepack_status r = OK \<and> is_packed r
         \<and> packed_w_' (self r)
             = Some \<lparr> Shape = [2, 1, 2, 3], data = int8_data [0, 2, 4, 1, 3, 5, 6, 8, 10, 7, 9, 11] \<rparr>
         \<and> op0_' (self r) = Some (xnn_operator 1)
         \<and> length (prepack_calls r) = 1)"
proof -
  let ?packed = "\<lparr> Shape = [2, 1, 2, 3], data = int8_data [0, 2, 4, 1, 3, 5, 6, 8, 10, 7, 9, 11] \<rparr>"
  let ?conv = "example_conv xnn_compute_type_qs8"
  have h1: "Shape example_weight = [int 2, int 3, int 1, int 2]"
    by (simp add: example_weight_def)
  have h2: "data_length (data example_weight) = 2 * 3 * 1 * 2"
    by (simp add: example_weight_def)
  from pack_weight_permutation_roundtrip [OF h1 h2, of "\<lambda>n. True"]
  obtain packed where
    pw: "pack_weight example_weight (\<lambda>n. True) = Inr packed" and
    sh: "Shape packed = [int 2, int 1, int 2, int 3]" and
    el: "\<forall>m < 2. \<forall>c < 3. \<forall>h < 1. \<forall>w < 2.
           element_at (data packed) (((m * 1 + h) * 2 + w) * 3 + c)
             = element_at (data example_weight) (((m * 3 + c) * 1 + h) * 2 + w)
           \<and> element_at (data packed) (((m * 1 + h) * 2 + w) * 3 + c) \<noteq> None" and
    ln: "data_length (data packed) = 2 * 1 * 2 * 3" and
    bw: "Transpose_generic [0, 3, 1, 2] packed = Inr example_weight" and
    pp: "\<forall>xnn this idx.
           (conv_type_' this = xnn_compute_type_fp32 \<and> idx = 1) \<or>
           (conv_type_' this \<noteq> xnn_compute_type_fp32 \<and> idx = 3) \<longrightarrow>
           PrePack xnn this example_weight idx (\<lambda>n. True) =
             (case CreateXnnpackKernel xnn (conv_attrs_' this) (C_' this) (M_' this)
                     (kernel_shape_' this) (clip_min_max_' this) packed (B_' this)
                     (quant_param_' this) (conv_type_' this) of
                Inl e \<Rightarrow> Inl e
              | Inr ret \<Rightarrow>
                  Inr \<lparr> prepack_status = status ret, is_packed = True,
                        self = (if status ret = OK
                                then this \<lparr> packed_w_' := Some packed, op0_' := p ret \<rparr>
                                else this \<lparr> packed_w_' := Some packed \<rparr>),
                        prepack_calls = create_calls ret \<rparr>)"
    by auto
  have direct: "pack_weight example_weight (\<lambda>n. True) = Inr ?packed"
    by (simp add: pack_weight_def elem_at_def SingleAxisTranspose_def source_indices_def
          gather_def example_weight_def upt_rec)
  from pw direct have p: "packed = ?packed" by simp
  have k: "\<exists>ret. CreateXnnpackKernel xnn_create_ok (conv_attrs_' ?conv) (C_' ?conv) (M_' ?conv)
             (kernel_shape_' ?conv) (clip_min_max_' ?conv) ?packed (B_' ?conv)
             (quant_param_' ?conv) (conv_type_' ?conv) = Inr ret
           \<and> status ret = OK \<and> p ret = Some (xnn_operator 1) \<and> length (create_calls ret) = 1"
    by (simp add: kernel_defs example_conv_def example_attrs_def xnn_create_ok_def)
  from pp [rule_format, of ?conv 3 xnn_create_ok] k
  have "\<exists>r. PrePack xnn_create_ok ?conv example_weight 3 (\<lambda>n. True) = Inr r
         \<and> prepack_status r = OK \<and> is_packed r
         \<and> packed_w_' (self r) = Some ?packed
         \<and> op0_' (self r) = Some (xnn_operator 1)
         \<and> length (prepack_calls r) = 1"
    unfolding p by (auto simp: example_conv_def)
  with direct bw p show ?thesis by simp
qed

text \<open>
  C6. When the inferred output shape has zero elements, \<^verbatim>\<open>Compute\<close> returns OK at
  once, with the output tensor of that shape requested, and makes no setup and no run
  call.
\<close>

theorem Compute_empty_output_returns_early:
  assumes "Shape X = N # H # W # rest"
      and "infer (conv_attrs_' this) [H, W] (kernel_shape_' this) (strides (conv_attrs_' this))
             (dilations (conv_attrs_' this)) (pads (conv_attrs_' this)) [N] = (OK, pads_out, Y_dims)"
      and "Size (Y_dims @ [M_' this]) = 0"
  shows "Compute infer xnn this X =
           Inr \<lparr> compute_status = OK, Y = Some (Y_dims @ [M_' this]), native_calls = [],
                 self_after = this \<rparr>"
  using assms by (simp add: Compute_def elem_at_def)

theorem Compute_empty_output_returns_early_witness:
  "Compute InferPadsAndOutputShape_spec (xnn_native_status xnn_status_success xnn_status_success)
     (explicit_pads_conv xnn_compute_type_qs8) (example_input 0) =
   Inr \<lparr> compute_status = OK, Y = Some [0, 1, 1, 2], native_calls = [],
         self_after = explicit_pads_conv xnn_compute_type_qs8 \<rparr>"
proof -
  let ?conv = "explicit_pads_conv xnn_compute_type_qs8"
  have h1: "Shape (example_input 0) = 0 # 1 # 2 # [3]"
    by (simp add: example_input_def)
  have h2: "InferPadsAndOutputShape_spec (conv_attrs_' ?conv) [1, 2] (kernel_shape_' ?conv)
              (strides (conv_attrs_' ?conv)) (dilations (conv_attrs_' ?conv))
              (pads (conv_attrs_' ?conv)) [0] = (OK, [0, 0, 0, 0], [0, 1, 1])"
    by (simp add: InferPadsAndOutputShape_spec_def explicit_pads_conv_def example_conv_def example_attrs_def
          output_dim_def upt_rec)
  have h3: "Size ([0, 1, 1] @ [M_' ?conv]) = 0"
    by (simp add: Size_def)
  from Compute_empty_output_returns_early
         [where infer = InferPadsAndOutputShape_spec and this = ?conv, OF h1 h2 h3]
  show ?thesis by (simp add: explicit_pads_conv_def example_conv_def)
qed

text \<open>
  C7. For a channel-last input of shape [N, H, W, C], the output shape of \<^verbatim>\<open>Compute\<close>
  is N, then the two spatial extents of the standard padded-convolution formula over
  kernel shape, strides, dilations and pads, then the output channel count M; the
  operator is left as it was, and a second computation on it gives the same shape,
  whatever the native library answers.
\<close>

theorem Compute_output_shape:
  assumes "Shape X = [N, H, W, C]"
      and "kernel_shape_' this = [kh, kw]"
      and "strides (conv_attrs_' this) = [sh, sw]"
      and "dilations (conv_attrs_' this) = [dh, dw]"
      and "pads (conv_attrs_' this) = [pt, pl, pb, pr]"
      and "0 < sh" and "0 < sw"
  shows "\<exists>r. Compute InferPadsAndOutputShape_spec xnn this X = Inr r \<and>
             Y r = Some [N, output_dim H sh kh dh pt pb, output_dim W sw kw dw pl pr, M_' this] \<and>
             self_after r = this \<and>
             (\<forall>xnn'. \<exists>r'. Compute InferPadsAndOutputShape_spec xnn' (self_after r) X = Inr r' \<and>
                            Y r' = Y r)"
proof -
  have infer: "InferPadsAndOutputShape_spec (conv_attrs_' this) [H, W] (kernel_shape_' this)
                 (strides (conv_attrs_' this)) (dilations (conv_attrs_' this))
                 (pads (conv_attrs_' this)) [N]
               = (OK, [pt, pl, pb, pr],
                  [N, output_dim H sh kh dh pt pb, output_dim W sw kw dw pl pr])"
    using assms by (simp add: InferPadsAndOutputShape_spec_def upt_rec)
  have shape: "\<And>x. \<exists>r. Compute InferPadsAndOutputShape_spec x this X = Inr r \<and>
             Y r = Some [N, output_dim H sh kh dh pt pb, output_dim W sw kw dw pl pr, M_' this] \<and>
             self_after r = this"
    using assms(1) infer by (simp add: Compute_def elem_at_def setup_and_run_def Let_def)
  from shape[of xnn] obtain r where r: "Compute InferPadsAndOutputShape_spec xnn this X = Inr r"
     "Y r = Some [N, output_dim H sh kh dh pt pb, output_dim W sw kw dw pl pr, M_' this]"
     "self_after r = this" by blast
  moreover have "\<forall>xnn'. \<exists>r'. Compute InferPadsAndOutputShape_spec xnn' (self_after r) X = Inr r' \<and> Y r' = Y r"
    using shape r by metis
  ultimately show ?thesis by blast
qed

theorem Compute_output_shape_witness:
  "\<exists>r. Compute InferPadsAndOutputShape_spec (xnn_native_status xnn_status_success xnn_status_success)
          (explicit_pads_conv xnn_compute_type_qs8) (example_input 5) = Inr r
       \<and> Y r = Some [5, 1, 1, 2]"
proof -
  let ?conv = "explicit_pads_conv xnn_compute_type_qs8"
  have h: "Shape (example_input 5) = [5, 1, 2, 3]" "kernel_shape_' ?conv = [1, 2]"
    "strides (conv_attrs_' ?conv) = [1, 1]" "dilations (conv_attrs_' ?conv) = [1, 1]"
    "pads (conv_attrs_' ?conv) = [0, 0, 0, 0]" "(0::int) < 1"
    by (simp_all add: example_input_def explicit_pads_conv_def example_conv_def example_attrs_def)
  from Compute_output_shape [OF h(1) h(2) h(3) h(4) h(5) h(6) h(6),
      of "xnn_native_status xnn_status_success xnn_status_success"]
  show ?thesis by (auto simp: output_dim_def explicit_pads_conv_def example_conv_def)
qed



text \<open>
  C9. When the setup call or the run call returns a status other than success,
  \<^verbatim>\<open>Compute\<close> returns a FAIL status that carries that status code; the setup call was
  made once and, when it failed, the run call not at all; when the run call failed it
  was made once; the operator is left as it was.
\<close>

theorem Compute_native_failure_surfaced:
  assumes "Shape X = N # H # W # rest"
      and "infer (conv_attrs_' this) [H, W] (kernel_shape_' this) (strides (conv_attrs_' this))
             (dilations (conv_attrs_' this)) (pads (conv_attrs_' this)) [N] = (OK, pads_out, Y_dims)"
      and "Size (Y_dims @ [M_' this]) \<noteq> 0"
      and "setup_call this N H W X (Y_dims @ [M_' this]) = Some c"
      and "s \<noteq> xnn_status_success"
  shows "(xnn c = s \<longrightarrow>
            Compute infer xnn this X =
              Inr \<lparr> compute_status = MakeStatus ONNXRUNTIME FAIL
                       [Text ''xnn_setup_convolution2d_nhwc_f32 returned '', XnnStatus s],
                    Y = Some (Y_dims @ [M_' this]), native_calls = [c], self_after = this \<rparr>)
       \<and> (xnn c = xnn_status_success \<and> xnn (xnn_run_operator (op0_' this)) = s \<longrightarrow>
            Compute infer xnn this X =
              Inr \<lparr> compute_status = MakeStatus ONNXRUNTIME FAIL
                       [Text ''xnn_run_operator returned '', XnnStatus s],
                    Y = Some (Y_dims @ [M_' this]),
                    native_calls = [c, xnn_run_operator (op0_' this)], self_after = this \<rparr>)"
  using assms by (simp add: Compute_def elem_at_def setup_and_run_def Let_def)

theorem Compute_native_failure_surfaced_witness:
  "Compute InferPadsAndOutputShape_spec (xnn_native_status xnn_status_out_of_memory xnn_status_success)
     (explicit_pads_conv xnn_compute_type_qs8) (example_input 1) =
   Inr \<lparr> compute_status = MakeStatus ONNXRUNTIME FAIL
            [Text ''xnn_setup_convolution2d_nhwc_f32 returned '', XnnStatus xnn_status_out_of_memory],
         Y = Some [1, 1, 1, 2],
         native_calls = [xnn_setup_convolution2d_nhwc_qs8 None 1 1 2 (data (example_input 1)) [1, 1, 1, 2]],
         self_after = explicit_pads_conv xnn_compute_type_qs8 \<rparr>
   \<and> Compute InferPadsAndOutputShape_spec (xnn_native_status xnn_status_success xnn_status_invalid_parameter)
     (explicit_pads_conv xnn_compute_type_qs8) (example_input 1) =
   Inr \<lparr> compute_status = MakeStatus ONNXRUNTIME FAIL
            [Text ''xnn_run_operator returned '', XnnStatus xnn_status_invalid_parameter],
         Y = Some [1, 1, 1, 2],
         native_calls = [xnn_setup_convolution2d_nhwc_qs8 None 1 1 2 (data (example_input 1)) [1, 1, 1, 2],
                         xnn_run_operator None],
         self_after = explicit_pads_conv xnn_compute_type_qs8 \<rparr>"
proof -
  let ?conv = "explicit_pads_conv xnn_compute_type_qs8"
  let ?c = "xnn_setup_convolution2d_nhwc_qs8 None 1 1 2 (data (example_input 1)) [1, 1, 1, 2]"
  have h1: "Shape (example_input 1) = 1 # 1 # 2 # [3]"
    by (simp add: example_input_def)
  have h2: "InferPadsAndOutputShape_spec (conv_attrs_' ?conv) [1, 2] (kernel_shape_' ?conv)
              (strides (conv_attrs_' ?conv)) (dilations (conv_attrs_' ?conv))
              (pads (conv_attrs_' ?conv)) [1] = (OK, [0, 0, 0, 0], [1, 1, 1])"
    by (simp add: InferPadsAndOutputShape_spec_def explicit_pads_conv_def example_conv_def example_attrs_def
          output_dim_def upt_rec)
  have h3: "Size ([1, 1, 1] @ [M_' ?conv]) \<noteq> 0"
    by (simp add: Size_def explicit_pads_conv_def example_conv_def)
  have h4: "setup_call ?conv 1 1 2 (example_input 1) ([1, 1, 1] @ [M_' ?conv]) = Some ?c"
    by (simp add: setup_call_def explicit_pads_conv_def example_conv_def to_size_t_def)
  have s1: "xnn_status_out_of_memory \<noteq> xnn_status_success"
   and s2: "xnn_status_invalid_parameter \<noteq> xnn_status_success" by simp_all
  from Compute_native_failure_surfaced
         [where infer = InferPadsAndOutputShape_spec and this = ?conv
            and xnn = "xnn_native_status xnn_status_out_of_memory xnn_status_success",
          OF h1 h2 h3 h4 s1]
       Compute_native_failure_surfaced
         [where infer = InferPadsAndOutputShape_spec and this = ?conv
            and xnn = "xnn_native_status xnn_status_success xnn_status_invalid_parameter",
          OF h1 h2 h3 h4 s2]
  show ?thesis by (simp add: xnn_native_status_def explicit_pads_conv_def example_conv_def)
qed

text \<open>
  C10. A \<^verbatim>\<open>PrePack\<close> call on an input position other than that of the weight (1 on the
  float path, 3 on the quantized paths) leaves the operator as it was, reports
  \<^verbatim>\<open>is_packed = false\<close>, returns OK and makes no native call.
\<close>

theorem PrePack_other_input_unchanged:
  assumes "conv_type_' this = xnn_compute_type_fp32 \<longrightarrow> input_idx \<noteq> 1"
      and "conv_type_' this \<noteq> xnn_compute_type_fp32 \<longrightarrow> input_idx \<noteq> 3"
  shows "PrePack xnn this tensor input_idx alloc =
           Inr \<lparr> prepack_status = OK, is_packed = False, self = this, prepack_calls = [] \<rparr>"
  using assms by (auto simp: PrePack_def is_weight_input_def IN_W_def)

theorem PrePack_other_input_unchanged_witness:
  "PrePack xnn_create_ok (example_conv xnn_compute_type_fp32) example_weight 0 (\<lambda>n. True) =
     Inr \<lparr> prepack_status = OK, is_packed = False, self = example_conv xnn_compute_type_fp32,
           prepack_calls = [] \<rparr>
   \<and> PrePack xnn_create_ok (example_conv xnn_compute_type_qs8) example_weight 1 (\<lambda>n. True) =
     Inr \<lparr> prepack_status = OK, is_packed = False, self = example_conv xnn_compute_type_qs8,
           prepack_calls = [] \<rparr>"
  using PrePack_other_input_unchanged [of "example_conv xnn_compute_type_fp32" 0]
        PrePack_other_input_unchanged [of "example_conv xnn_compute_type_qs8" 1]
  by (simp add: example_conv_def)

end
